theory Spec2Isabelle
  imports
    Complex_Main
    "HOL-Library.Sublist"
    "HOL-Library.Char_ord"
    "HOL-Library.List_Lexorder"
begin

section \<open>Python values\<close>

text \<open>
  Values that travel through dictionaries and JSON files. A finite Python float is the
  rational number it denotes (there is no NaN and no infinity); Python ints are \<open>int\<close>.
  A text is the list of the bytes of its UTF-8 encoding. A dictionary is an association
  list, read with \<open>map_of\<close>.
\<close>

datatype json =
    JNull
  | JBool bool
  | JInt int
  | JFloat rat
  | JStr string
  | JArr "json list"
  | JObj "(string \<times> json) list"

text \<open>An exception is its class and the text \<open>str(e)\<close> gives.\<close>

datatype exn_class =
    BaseError | ValueError | TypeError | KeyError | JSONDecodeError | RecursionError
  | ValidationError | LibraryError

datatype exn = Exn (exn_class: exn_class) (exn_msg: string)

text \<open>
  Float arithmetic. The result of an operation is the exact result rounded to the nearest
  double, a tie going to the even mantissa: 53 bits of mantissa, and below the normal
  range a fixed exponent of \<open>-1074\<close>. An exact result at or beyond the overflow
  threshold would be an infinity; such results are outside these definitions, and the
  theorems that use them say so.
\<close>

definition round_half_even :: "rat \<Rightarrow> int" where
  "round_half_even x =
     (let f = \<lfloor>x\<rfloor>; d = x - of_int f
      in if d < 1 / 2 then f
         else if 1 / 2 < d then f + 1
         else if even f then f else f + 1)"

function bit_length :: "int \<Rightarrow> int" where
  "bit_length k = (if k \<le> 0 then 0 else 1 + bit_length (k div 2))"
  by pat_completeness auto
termination
  by (relation "measure nat") auto

declare bit_length.simps [simp del]

definition pow2 :: "int \<Rightarrow> rat" where
  "pow2 k = (if 0 \<le> k then 2 ^ nat k else 1 / 2 ^ nat (- k))"

definition floor_log2 :: "rat \<Rightarrow> int" where
  "floor_log2 x =
     (case quotient_of x of
        (p, q) \<Rightarrow> let k = bit_length p - bit_length q in if pow2 k \<le> x then k else k - 1)"

definition to_double :: "rat \<Rightarrow> rat" where
  "to_double x =
     (if x = 0 then 0
      else let e = max (floor_log2 \<bar>x\<bar> - 52) (- 1074)
           in of_int (round_half_even (x / pow2 e)) * pow2 e)"

definition overflows :: "rat \<Rightarrow> bool" where
  "overflows x = (2 ^ 1024 - 2 ^ 970 \<le> \<bar>x\<bar>)"

definition float_mul :: "rat \<Rightarrow> rat \<Rightarrow> rat" where
  "float_mul x y = to_double (x * y)"

text \<open>
  \<open>round(x, 2)\<close> of a float: the decimal with two digits nearest to the float's exact
  value, a tie going to the even digit, and then the double nearest to that decimal.
\<close>

definition py_round2 :: "rat \<Rightarrow> rat" where
  "py_round2 x = to_double (of_int (round_half_even (x * 100)) / 100)"

text \<open>
  \<open>str.strip()\<close> removes every leading and trailing whitespace character. These are the
  characters Python counts as whitespace, each in its UTF-8 encoding: U+0009 to U+000D,
  U+001C to U+0020, U+0085, U+00A0, U+1680, U+2000 to U+200A, U+2028, U+2029, U+202F,
  U+205F and U+3000.
\<close>

definition whitespace :: "string list" where
  "whitespace =
     [[CHR 0x09], [CHR 0x0A], [CHR 0x0B], [CHR 0x0C], [CHR 0x0D],
      [CHR 0x1C], [CHR 0x1D], [CHR 0x1E], [CHR 0x1F], [CHR 0x20],
      [CHR 0xC2, CHR 0x85], [CHR 0xC2, CHR 0xA0], [CHR 0xE1, CHR 0x9A, CHR 0x80],
      [CHR 0xE2, CHR 0x80, CHR 0x80], [CHR 0xE2, CHR 0x80, CHR 0x81],
      [CHR 0xE2, CHR 0x80, CHR 0x82], [CHR 0xE2, CHR 0x80, CHR 0x83],
      [CHR 0xE2, CHR 0x80, CHR 0x84], [CHR 0xE2, CHR 0x80, CHR 0x85],
      [CHR 0xE2, CHR 0x80, CHR 0x86], [CHR 0xE2, CHR 0x80, CHR 0x87],
      [CHR 0xE2, CHR 0x80, CHR 0x88], [CHR 0xE2, CHR 0x80, CHR 0x89],
      [CHR 0xE2, CHR 0x80, CHR 0x8A], [CHR 0xE2, CHR 0x80, CHR 0xA8],
      [CHR 0xE2, CHR 0x80, CHR 0xA9], [CHR 0xE2, CHR 0x80, CHR 0xAF],
      [CHR 0xE2, CHR 0x81, CHR 0x9F], [CHR 0xE3, CHR 0x80, CHR 0x80]]"

function strip_leading :: "string list \<Rightarrow> string \<Rightarrow> string" where
  "strip_leading ws s =
     (case List.find (\<lambda>w. w \<noteq> [] \<and> prefix w s) ws of
        None \<Rightarrow> s
      | Some w \<Rightarrow> strip_leading ws (drop (length w) s))"
  by pat_completeness auto
termination
proof (relation "measure (\<lambda>(ws, s). length s)")
  show "wf (measure (\<lambda>(ws, s). length s))"
    by simp
next
  fix ws :: "string list" and s w :: string
  assume "List.find (\<lambda>w. w \<noteq> [] \<and> prefix w s) ws = Some w"
  then have "w \<noteq> []" and "prefix w s"
    by (auto simp: find_Some_iff)
  then have "length (drop (length w) s) < length s"
    by (auto simp: prefix_def)
  then show "((ws, drop (length w) s), (ws, s)) \<in> measure (\<lambda>(ws, s). length s)"
    by simp
qed

declare strip_leading.simps [simp del]

definition strip :: "string \<Rightarrow> string" where
  "strip s = rev (strip_leading (map rev whitespace) (rev (strip_leading whitespace s)))"

text \<open>\<open>str.upper()\<close> and \<open>str.isalnum()\<close> on ASCII text.\<close>

definition is_lower :: "char \<Rightarrow> bool" where
  "is_lower c = (CHR ''a'' \<le> c \<and> c \<le> CHR ''z'')"

definition is_upper :: "char \<Rightarrow> bool" where
  "is_upper c = (CHR ''A'' \<le> c \<and> c \<le> CHR ''Z'')"

definition is_digit :: "char \<Rightarrow> bool" where
  "is_digit c = (CHR ''0'' \<le> c \<and> c \<le> CHR ''9'')"

definition isalnum :: "char \<Rightarrow> bool" where
  "isalnum c = (is_lower c \<or> is_upper c \<or> is_digit c)"

definition upper_char :: "char \<Rightarrow> char" where
  "upper_char c = (if is_lower c then char_of (of_char c - (32::nat)) else c)"

definition upper :: "string \<Rightarrow> string" where
  "upper s = map upper_char s"

text \<open>\<open>str(n)\<close> for an int.\<close>

fun str_nat :: "nat \<Rightarrow> string" where
  "str_nat n =
     (if n < 10 then [''0123456789'' ! n]
      else str_nat (n div 10) @ [''0123456789'' ! (n mod 10)])"

definition str_int :: "int \<Rightarrow> string" where
  "str_int i = (if i < 0 then CHR ''-'' # str_nat (nat (- i)) else str_nat (nat i))"

section \<open>models.py\<close>

record PriceRecommendationRequest =
  cost_price :: rat
  competitor_price :: "rat option"
  inventory_level :: string
  season :: string
  category :: string

record PriceRecommendationResponse =
  suggested_price :: rat
  reasoning :: string
  confidence_score :: "rat option"

record User =
  sub :: string
  email :: "string option"
  name :: "string option"

section \<open>services/gemini.py\<close>

text \<open>
  What \<open>self.model.generate_content(prompt)\<close> does is the environment's choice: it raises,
  or it returns a response whose \<open>text\<close> is read (\<open>None\<close> stands for a falsy response or
  a missing text). \<open>json.loads\<close> and the construction \<open>PriceRecommendationResponse(**result)\<close>
  are library code and are taken as parameters \<open>loads\<close> and \<open>build\<close>.
\<close>

type_synonym generated = "exn + string option"

definition required_fields :: "string list" where
  "required_fields = [''suggested_price'', ''reasoning'', ''confidence_score'']"

definition type_name :: "json \<Rightarrow> string" where
  "type_name v =
     (case v of
        JNull \<Rightarrow> ''NoneType'' | JBool _ \<Rightarrow> ''bool'' | JInt _ \<Rightarrow> ''int''
      | JFloat _ \<Rightarrow> ''float'' | JStr _ \<Rightarrow> ''str'' | JArr _ \<Rightarrow> ''list'' | JObj _ \<Rightarrow> ''dict'')"

text \<open>\<open>key in result\<close>: a key of a dict, an element of a list, a substring of a string;
  any other value is not a container and the test raises \<open>TypeError\<close>.\<close>

definition py_in :: "string \<Rightarrow> json \<Rightarrow> exn + bool" where
  "py_in key result =
     (case result of
        JObj kvs \<Rightarrow> Inr (key \<in> set (map fst kvs))
      | JArr xs \<Rightarrow> Inr (JStr key \<in> set xs)
      | JStr s \<Rightarrow> Inr (sublist key s)
      | _ \<Rightarrow> Inl (Exn TypeError
                 (''argument of type '' @ [CHR 0x27] @ type_name result @ [CHR 0x27]
                  @ '' is not iterable'')))"

text \<open>\<open>all(key in result for key in keys)\<close> stops at the first key that is absent.\<close>

fun all_in :: "string list \<Rightarrow> json \<Rightarrow> exn + bool" where
  "all_in [] result = Inr True"
| "all_in (key # keys) result =
     (case py_in key result of
        Inl e \<Rightarrow> Inl e
      | Inr present \<Rightarrow> if present then all_in keys result else Inr False)"

text \<open>
  The two fixed-markup answers of the handlers. The literals 1.5, 1.4, 0.6 and 0.5 are
  the doubles nearest to them; \<open>markup_percentage*100-100\<close> prints as 50.0 and 40.0.
\<close>

definition parsing_fallback :: "PriceRecommendationRequest \<Rightarrow> PriceRecommendationResponse" where
  "parsing_fallback request =
     (let markup_percentage = to_double (15 / 10);
          fallback_price = float_mul (cost_price request) markup_percentage
      in \<lparr>suggested_price = py_round2 fallback_price,
          reasoning = ''Fallback pricing applied due to API parsing error. ''
                      @ ''Applied 50.0% markup on cost price.'',
          confidence_score = Some (to_double (6 / 10))\<rparr>)"

definition emergency_fallback ::
  "exn \<Rightarrow> PriceRecommendationRequest \<Rightarrow> PriceRecommendationResponse" where
  "emergency_fallback e request =
     (let markup_percentage = to_double (14 / 10);
          fallback_price = float_mul (cost_price request) markup_percentage
      in \<lparr>suggested_price = py_round2 fallback_price,
          reasoning = ''Emergency fallback pricing due to API error: '' @ exn_msg e
                      @ ''. Applied 40.0% markup.'',
          confidence_score = Some (to_double (5 / 10))\<rparr>)"

text \<open>The body of the inner \<open>try\<close>: parse, check the three keys, build the response.\<close>

definition parse_reply ::
  "(string \<Rightarrow> exn + json) \<Rightarrow> (json \<Rightarrow> exn + PriceRecommendationResponse) \<Rightarrow> string
     \<Rightarrow> exn + PriceRecommendationResponse" where
  "parse_reply loads build text =
     (case loads (strip text) of
        Inl e \<Rightarrow> Inl e
      | Inr result \<Rightarrow>
          (case all_in required_fields result of
             Inl e \<Rightarrow> Inl e
           | Inr all_present \<Rightarrow>
               if \<not> all_present
               then Inl (Exn ValueError ''Missing required fields in Gemini response'')
               else build result))"

text \<open>The body of the outer \<open>try\<close>; the inner handler takes \<open>JSONDecodeError\<close> only.\<close>

definition attempt ::
  "(string \<Rightarrow> exn + json) \<Rightarrow> (json \<Rightarrow> exn + PriceRecommendationResponse) \<Rightarrow> generated
     \<Rightarrow> PriceRecommendationRequest \<Rightarrow> exn + PriceRecommendationResponse" where
  "attempt loads build response request =
     (case response of
        Inl e \<Rightarrow> Inl e
      | Inr None \<Rightarrow> Inl (Exn BaseError ''Empty response from Gemini API'')
      | Inr (Some text) \<Rightarrow>
          if text = [] then Inl (Exn BaseError ''Empty response from Gemini API'')
          else (case parse_reply loads build text of
                  Inl e \<Rightarrow>
                    if exn_class e = JSONDecodeError then Inr (parsing_fallback request)
                    else Inl e
                | Inr r \<Rightarrow> Inr r))"

definition get_price_recommendation ::
  "(string \<Rightarrow> exn + json) \<Rightarrow> (json \<Rightarrow> exn + PriceRecommendationResponse) \<Rightarrow> generated
     \<Rightarrow> PriceRecommendationRequest \<Rightarrow> PriceRecommendationResponse" where
  "get_price_recommendation loads build response request =
     (case attempt loads build response request of
        Inl e \<Rightarrow> emergency_fallback e request
      | Inr r \<Rightarrow> r)"

section \<open>services/currency.py\<close>

text \<open>
  A rate table is a dictionary from currency code to multiplier, kept in the order it
  was written. The service object holds the two cache dictionaries; times are seconds.
\<close>

type_synonym rates = "(string \<times> rat) list"

definition fallback_rates :: rates where
  "fallback_rates =
     [(''USD'', 1), (''EUR'', 85 / 100), (''GBP'', 73 / 100), (''JPY'', 110),
      (''CAD'', 125 / 100), (''AUD'', 135 / 100), (''CHF'', 92 / 100), (''CNY'', 645 / 100),
      (''INR'', 74), (''KRW'', 1180)]"

definition base_url :: string where
  "base_url = ''https://api.exchangerate-api.com/v4/latest''"

definition cache_duration :: rat where
  "cache_duration = 3600"

record CurrencyExchangeService =
  cache :: "string \<Rightarrow> rates option"
  cache_expiry :: "string \<Rightarrow> rat option"

text \<open>
  The HTTP client is the environment: \<open>fetch url\<close> raises, or gives a status code and
  what \<open>response.json()\<close> does, which raises or gives the \<open>rates\<close> entry of the body
  (\<open>None\<close> when the body has none).
\<close>

datatype http_response = HttpResponse (status_code: int) (json_rates: "exn + rates option")

type_synonym fetcher = "string \<Rightarrow> exn + http_response"

definition get_fallback_rates :: "string \<Rightarrow> rates" where
  "get_fallback_rates base_currency =
     (if base_currency = ''USD'' then fallback_rates
      else
        let base_rate = (case map_of fallback_rates base_currency of
                           None \<Rightarrow> 1 | Some r \<Rightarrow> r)
        in map (\<lambda>(currency, rate). (currency, rate / base_rate)) fallback_rates)"

definition cache_fresh :: "CurrencyExchangeService \<Rightarrow> rat \<Rightarrow> string \<Rightarrow> bool" where
  "cache_fresh self now cache_key =
     (case (cache self cache_key, cache_expiry self cache_key) of
        (Some rs, Some expiry) \<Rightarrow> now < expiry
      | _ \<Rightarrow> False)"

definition get_exchange_rates ::
  "fetcher \<Rightarrow> rat \<Rightarrow> CurrencyExchangeService \<Rightarrow> string
     \<Rightarrow> rates \<times> CurrencyExchangeService" where
  "get_exchange_rates fetch now self base_currency =
     (let cache_key = ''rates_'' @ base_currency
      in if cache_fresh self now cache_key
         then (case cache self cache_key of Some rs \<Rightarrow> (rs, self) | None \<Rightarrow> ([], self))
         else
           (case fetch (base_url @ ''/'' @ base_currency) of
              Inl e \<Rightarrow> (get_fallback_rates base_currency, self)
            | Inr response \<Rightarrow>
                if status_code response = 200
                then (case json_rates response of
                        Inl e \<Rightarrow> (get_fallback_rates base_currency, self)
                      | Inr data \<Rightarrow>
                          let rs = (case data of None \<Rightarrow> [] | Some r \<Rightarrow> r)
                          in (rs, self\<lparr>cache := (cache self)(cache_key \<mapsto> rs),
                                       cache_expiry := (cache_expiry self)
                                          (cache_key \<mapsto> now + cache_duration)\<rparr>))
                else (get_fallback_rates base_currency, self)))"

text \<open>
  \<open>convert_currency\<close> returns the amount and a dictionary describing the rate used,
  together with the service object as the call leaves it.
\<close>

definition convert_currency ::
  "fetcher \<Rightarrow> rat \<Rightarrow> CurrencyExchangeService \<Rightarrow> rat \<Rightarrow> string \<Rightarrow> string
     \<Rightarrow> (rat \<times> (string \<times> json) list) \<times> CurrencyExchangeService" where
  "convert_currency fetch now self amount from_currency to_currency =
     (if upper from_currency = upper to_currency
      then ((amount, [(from_currency @ ''_to_'' @ to_currency, JFloat 1)]), self)
      else
        (case get_exchange_rates fetch now self (upper from_currency) of
           (rs, self') \<Rightarrow>
             (case map_of rs (upper to_currency) of
                Some conversion_rate \<Rightarrow>
                  ((py_round2 (float_mul amount conversion_rate),
                    [(from_currency @ ''_to_'' @ to_currency, JFloat conversion_rate),
                     (''source'',
                      JStr (if cache self' (''rates_'' @ from_currency) \<noteq> None
                            then ''live_api'' else ''fallback''))]),
                   self')
              | None \<Rightarrow>
                  ((amount,
                    [(''error'', JStr (''Currency '' @ to_currency @ '' not supported''))]),
                   self'))))"

section \<open>services/local_storage.py\<close>

text \<open>
  A stored suggestion is the dictionary \<open>save_price_suggestion\<close> writes: its id, user
  and timestamp are strings, the four payload entries are whatever the caller passed.
  The disk maps a path to the file's content. What the environment does during one call
  is an \<open>io\<close> value: whether reading and writing the file succeed (the source catches
  and logs every failure of either) and what the clock says. A failed write leaves the
  file as it was.
\<close>

record suggestion =
  sg_id :: string
  sg_user_id :: string
  sg_product_data :: json
  sg_suggested_price :: json
  sg_reasoning :: json
  sg_confidence_score :: json
  sg_timestamp :: string

record user_file =
  uf_user_id :: string
  uf_suggestions :: "suggestion list"
  uf_last_updated :: string

type_synonym disk = "string \<Rightarrow> user_file option"

record io =
  read_ok :: bool
  write_ok :: bool
  now_timestamp :: int
  utcnow_iso :: string
  last_updated_iso :: string

definition storage_dir :: string where
  "storage_dir = ''local_data''"

definition get_user_file_path :: "string \<Rightarrow> string" where
  "get_user_file_path user_id =
     (let clean_user_id = filter (\<lambda>c. isalnum c \<or> c \<in> set [CHR ''-'', CHR ''_'']) user_id
      in storage_dir @ ''/'' @ ''user_'' @ clean_user_id @ ''.json'')"

definition load_user_data :: "io \<Rightarrow> disk \<Rightarrow> string \<Rightarrow> suggestion list" where
  "load_user_data env files user_id =
     (if read_ok env
      then (case files (get_user_file_path user_id) of
              Some f \<Rightarrow> uf_suggestions f
            | None \<Rightarrow> [])
      else [])"

definition save_user_data :: "io \<Rightarrow> disk \<Rightarrow> string \<Rightarrow> suggestion list \<Rightarrow> disk" where
  "save_user_data env files user_id suggestions =
     (if write_ok env
      then files(get_user_file_path user_id \<mapsto>
             \<lparr>uf_user_id = user_id, uf_suggestions = suggestions,
              uf_last_updated = last_updated_iso env\<rparr>)
      else files)"

definition dict_get :: "(string \<times> json) list \<Rightarrow> string \<Rightarrow> json \<Rightarrow> json" where
  "dict_get d key dflt = (case map_of d key of None \<Rightarrow> dflt | Some v \<Rightarrow> v)"

definition new_suggestion ::
  "io \<Rightarrow> nat \<Rightarrow> User \<Rightarrow> (string \<times> json) list \<Rightarrow> suggestion" where
  "new_suggestion env n user suggestion_data =
     \<lparr>sg_id = ''local_'' @ str_nat n @ ''_'' @ str_int (now_timestamp env),
      sg_user_id = sub user,
      sg_product_data = dict_get suggestion_data ''product_data'' (JObj []),
      sg_suggested_price = dict_get suggestion_data ''suggested_price'' JNull,
      sg_reasoning = dict_get suggestion_data ''reasoning'' JNull,
      sg_confidence_score = dict_get suggestion_data ''confidence_score'' JNull,
      sg_timestamp = utcnow_iso env\<rparr>"

text \<open>\<open>xs[-100:]\<close>: the last hundred elements, or all of them when there are fewer.\<close>

definition last_100 :: "'a list \<Rightarrow> 'a list" where
  "last_100 xs = drop (length xs - 100) xs"

definition local_storage_save_price_suggestion ::
  "io \<Rightarrow> disk \<Rightarrow> User \<Rightarrow> (string \<times> json) list \<Rightarrow> string \<times> disk" where
  "local_storage_save_price_suggestion env files user suggestion_data =
     (let suggestions = load_user_data env files (sub user);
          new = new_suggestion env (length suggestions) user suggestion_data;
          suggestions = suggestions @ [new];
          suggestions = last_100 suggestions
      in (sg_id new, save_user_data env files (sub user) suggestions))"

text \<open>\<open>xs[start:stop]\<close> with Python's reading of negative and oversized bounds.\<close>

definition slice_index :: "nat \<Rightarrow> int \<Rightarrow> nat" where
  "slice_index n i = (if i < 0 then nat (max 0 (int n + i)) else min (nat i) n)"

definition py_slice :: "'a list \<Rightarrow> int \<Rightarrow> int \<Rightarrow> 'a list" where
  "py_slice xs start stop =
     (let a = slice_index (length xs) start; b = slice_index (length xs) stop
      in take (b - a) (drop a xs))"

text \<open>\<open>list.sort(key, reverse=True)\<close>: descending and stable.\<close>

definition sort_newest_first :: "suggestion list \<Rightarrow> suggestion list" where
  "sort_newest_first xs = rev (sort_key sg_timestamp (rev xs))"

definition local_storage_get_user_suggestions ::
  "io \<Rightarrow> disk \<Rightarrow> User \<Rightarrow> int \<Rightarrow> int \<Rightarrow> suggestion list" where
  "local_storage_get_user_suggestions env files user limit skip =
     (let suggestions = sort_newest_first (load_user_data env files (sub user))
      in py_slice suggestions skip (skip + limit))"

text \<open>
  Statistics. \<open>float(str)\<close> is the interpreter's parser and is taken as the parameter
  \<open>float_of_str\<close> (\<open>None\<close> when it raises \<open>ValueError\<close>). The list \<open>prices\<close> holds
  Python values: a string or number is replaced by its float before it is appended, a
  \<open>None\<close> or an unparsable string is left out, and a value of any other type passes both
  \<open>isinstance\<close> tests and is appended as it is.
\<close>

record stats =
  total_suggestions :: nat
  average_price :: rat
  min_price :: rat
  max_price :: rat

definition remove_char :: "char \<Rightarrow> string \<Rightarrow> string" where
  "remove_char c s = filter (\<lambda>x. x \<noteq> c) s"

definition coerce_price :: "(string \<Rightarrow> rat option) \<Rightarrow> json \<Rightarrow> json option" where
  "coerce_price float_of_str price =
     (case price of
        JNull \<Rightarrow> None
      | JStr s \<Rightarrow>
          (let price_str = strip (remove_char CHR '','' (remove_char CHR ''$'' s))
           in case float_of_str price_str of
                None \<Rightarrow> None
              | Some r \<Rightarrow> Some (JFloat r))
      | JBool b \<Rightarrow> Some (JFloat (if b then 1 else 0))
      | JInt i \<Rightarrow> Some (JFloat (of_int i))
      | JFloat r \<Rightarrow> Some (JFloat r)
      | _ \<Rightarrow> Some price)"

definition quoted :: "string \<Rightarrow> string" where
  "quoted s = [CHR 0x27] @ s @ [CHR 0x27]"

text \<open>\<open>sum\<close> over a list of Python values, from the int 0: a value that is not a
  number stops it with \<open>TypeError\<close>.\<close>

fun py_sum :: "string \<Rightarrow> rat \<Rightarrow> json list \<Rightarrow> exn + rat" where
  "py_sum t acc [] = Inr acc"
| "py_sum t acc (JFloat r # vs) = py_sum ''float'' (acc + r) vs"
| "py_sum t acc (v # vs) =
     Inl (Exn TypeError (''unsupported operand type(s) for +: '' @ quoted t @ '' and ''
                         @ quoted (type_name v)))"

text \<open>When \<open>sum\<close> has returned, every element of \<open>prices\<close> is a float; \<open>min\<close> and
  \<open>max\<close> then compare floats only, and keep the first of equal elements.\<close>

fun numbers :: "json list \<Rightarrow> rat list" where
  "numbers [] = []"
| "numbers (JFloat r # vs) = r # numbers vs"
| "numbers (v # vs) = numbers vs"

fun py_min :: "rat list \<Rightarrow> exn + rat" where
  "py_min [] = Inl (Exn ValueError ''min() arg is an empty sequence'')"
| "py_min (x # xs) = Inr (fold (\<lambda>item best. if item < best then item else best) xs x)"

fun py_max :: "rat list \<Rightarrow> exn + rat" where
  "py_max [] = Inl (Exn ValueError ''max() arg is an empty sequence'')"
| "py_max (x # xs) = Inr (fold (\<lambda>item best. if best < item then item else best) xs x)"

definition local_storage_get_suggestions_stats ::
  "(string \<Rightarrow> rat option) \<Rightarrow> io \<Rightarrow> disk \<Rightarrow> User \<Rightarrow> exn + stats" where
  "local_storage_get_suggestions_stats float_of_str env files user =
     (let suggestions = load_user_data env files (sub user)
      in if suggestions = []
         then Inr \<lparr>total_suggestions = 0, average_price = 0, min_price = 0, max_price = 0\<rparr>
         else
           let prices = List.map_filter
                          (\<lambda>suggestion. coerce_price float_of_str (sg_suggested_price suggestion))
                          suggestions
           in if prices = []
              then Inr \<lparr>total_suggestions = length suggestions, average_price = 0,
                        min_price = 0, max_price = 0\<rparr>
              else
                (case py_sum ''int'' 0 prices of
                   Inl e \<Rightarrow> Inl e
                 | Inr price_sum \<Rightarrow>
                     (case py_min (numbers prices) of
                        Inl e \<Rightarrow> Inl e
                      | Inr lo \<Rightarrow>
                          (case py_max (numbers prices) of
                             Inl e \<Rightarrow> Inl e
                           | Inr hi \<Rightarrow>
                               Inr \<lparr>total_suggestions = length suggestions,
                                    average_price = price_sum / of_nat (length prices),
                                    min_price = lo, max_price = hi\<rparr>))))"

text \<open>
  The claims speak of a price that can be coerced to a number: a number or boolean, or a
  string whose text, with dollar signs and commas removed and blanks stripped, the float
  parser accepts. \<open>coerced\<close> is that number. A price is \<open>plain\<close> when it is neither a
  list nor a dictionary.
\<close>

definition coerced :: "(string \<Rightarrow> rat option) \<Rightarrow> json \<Rightarrow> rat option" where
  "coerced float_of_str price =
     (case price of
        JBool b \<Rightarrow> Some (if b then 1 else 0)
      | JInt i \<Rightarrow> Some (of_int i)
      | JFloat r \<Rightarrow> Some r
      | JStr s \<Rightarrow> float_of_str (strip (remove_char CHR '','' (remove_char CHR ''$'' s)))
      | _ \<Rightarrow> None)"

definition plain :: "json \<Rightarrow> bool" where
  "plain price = (case price of JArr _ \<Rightarrow> False | JObj _ \<Rightarrow> False | _ \<Rightarrow> True)"

text \<open>A sequence of saves, each with its own user, payload and environment.\<close>

fun save_all :: "(io \<times> User \<times> (string \<times> json) list) list \<Rightarrow> disk \<Rightarrow> disk" where
  "save_all [] files = files"
| "save_all ((env, user, suggestion_data) # calls) files =
     save_all calls (snd (local_storage_save_price_suggestion env files user suggestion_data))"

section \<open>services/db.py\<close>

text \<open>
  \<open>database\<close> is \<open>None\<close> when there is no connection, else the documents of the
  collection \<open>price_suggestions\<close>. What the driver does is the environment's choice:
  \<open>insert_one\<close> stores the document and returns its id, or it raises; when it raises,
  the document was not stored, or it was stored and the acknowledgement was lost, and
  then the outcome carries the id it was stored under. A query raises or yields
  documents. A document has the shape of a stored suggestion, its timestamp written as
  text.
\<close>

record DatabaseService =
  database :: "suggestion list option"

datatype insert_outcome =
    Inserted string
  | InsertRaised exn "string option"

definition document :: "io \<Rightarrow> string \<Rightarrow> User \<Rightarrow> (string \<times> json) list \<Rightarrow> suggestion" where
  "document env inserted_id user suggestion_data =
     \<lparr>sg_id = inserted_id,
      sg_user_id = sub user,
      sg_product_data = dict_get suggestion_data ''product_data'' (JObj []),
      sg_suggested_price = dict_get suggestion_data ''suggested_price'' JNull,
      sg_reasoning = dict_get suggestion_data ''reasoning'' JNull,
      sg_confidence_score = dict_get suggestion_data ''confidence_score'' JNull,
      sg_timestamp = utcnow_iso env\<rparr>"

text \<open>The collection after \<open>insert_one\<close> has run.\<close>

definition after_insert ::
  "io \<Rightarrow> insert_outcome \<Rightarrow> suggestion list \<Rightarrow> User \<Rightarrow> (string \<times> json) list
     \<Rightarrow> suggestion list" where
  "after_insert env insert_one collection user suggestion_data =
     (case insert_one of
        Inserted inserted_id \<Rightarrow>
          collection @ [document env inserted_id user suggestion_data]
      | InsertRaised e (Some inserted_id) \<Rightarrow>
          collection @ [document env inserted_id user suggestion_data]
      | InsertRaised e None \<Rightarrow> collection)"

definition db_service_save_price_suggestion ::
  "io \<Rightarrow> insert_outcome \<Rightarrow> DatabaseService \<Rightarrow> disk \<Rightarrow> User \<Rightarrow> (string \<times> json) list
     \<Rightarrow> string \<times> DatabaseService \<times> disk" where
  "db_service_save_price_suggestion env insert_one self files user suggestion_data =
     (case database self of
        None \<Rightarrow>
          (case local_storage_save_price_suggestion env files user suggestion_data of
             (local_id, files') \<Rightarrow> (local_id, self, files'))
      | Some collection \<Rightarrow>
          (let self = self\<lparr>database :=
                        Some (after_insert env insert_one collection user suggestion_data)\<rparr>
           in case insert_one of
                Inserted inserted_id \<Rightarrow> (inserted_id, self, files)
              | InsertRaised e stored \<Rightarrow>
                  (case local_storage_save_price_suggestion env files user suggestion_data of
                     (local_id, files') \<Rightarrow> (local_id, self, files'))))"

definition db_service_get_user_suggestions ::
  "io \<Rightarrow> exn + suggestion list \<Rightarrow> DatabaseService \<Rightarrow> disk \<Rightarrow> User \<Rightarrow> int \<Rightarrow> int
     \<Rightarrow> suggestion list" where
  "db_service_get_user_suggestions env found self files user limit skip =
     (case database self of
        None \<Rightarrow> local_storage_get_user_suggestions env files user limit skip
      | Some collection \<Rightarrow>
          (case found of
             Inr suggestions \<Rightarrow> suggestions
           | Inl e \<Rightarrow> local_storage_get_user_suggestions env files user limit skip))"

section \<open>routers/price.py\<close>

text \<open>
  The upload handler works on the data frame \<open>pd.read_csv\<close> produced: the column names
  and what \<open>df.iterrows()\<close> yields, for each data row its index label and one cell per
  column. A cell is a missing value, a finite number or a text. The labels are
  \<open>0, 1, 2, ...\<close> when every data row has as many fields as the header; when the data
  rows have one field more, \<open>read_csv\<close> takes the first field of each row as its label,
  and when they have several more, the tuple of the first fields. A label is an int, a
  float, a missing value, a boolean, a text or a tuple. \<open>str\<close> of a number is the
  interpreter's printer, taken as the parameter \<open>str_of_num\<close>. The model's reply to the
  request made for the row at position \<open>k\<close> is \<open>replies k\<close>.
\<close>

datatype cell = NaN | Num rat | Text string

datatype label =
    IntLabel int | FloatLabel rat | NaNLabel | BoolLabel bool | TextLabel string
  | TupleLabel "label list"

record dataframe =
  df_columns :: "string list"
  df_rows :: "(label \<times> cell list) list"

datatype http_error = HTTPException (http_status: int) (detail: string)

datatype row_result =
    RowSuccess (row_number: label) (product_data: PriceRecommendationRequest)
      (result_price: rat) (result_reasoning: string) (result_confidence: "rat option")
  | RowFailed (row_number: label) (raw_row: "(string \<times> cell) list") (error: string)

definition status :: "row_result \<Rightarrow> string" where
  "status r = (case r of RowSuccess _ _ _ _ _ \<Rightarrow> ''success'' | RowFailed _ _ _ \<Rightarrow> ''failed'')"

record CSVUploadResponse =
  total_products :: nat
  successful_predictions :: nat
  failed_predictions :: nat
  results :: "row_result list"

text \<open>\<open>index + 1\<close>: exact on an int, rounded on a float, and a \<open>TypeError\<close> on a text
  or a tuple.\<close>

definition index_plus_one :: "label \<Rightarrow> exn + label" where
  "index_plus_one index =
     (case index of
        IntLabel i \<Rightarrow> Inr (IntLabel (i + 1))
      | FloatLabel r \<Rightarrow> Inr (FloatLabel (to_double (r + 1)))
      | NaNLabel \<Rightarrow> Inr NaNLabel
      | BoolLabel b \<Rightarrow> Inr (IntLabel (if b then 2 else 1))
      | TextLabel t \<Rightarrow>
          Inl (Exn TypeError ''can only concatenate str (not \"int\") to str'')
      | TupleLabel ls \<Rightarrow>
          Inl (Exn TypeError ''can only concatenate tuple (not \"int\") to tuple''))"

definition required_columns :: "string list" where
  "required_columns = [''cost_price'', ''inventory_level'', ''season'', ''category'']"

text \<open>\<open>row[col]\<close> raises \<open>KeyError\<close> for a column the row does not have;
  \<open>row.get(col)\<close> gives \<open>None\<close> instead.\<close>

definition row_get :: "string list \<Rightarrow> cell list \<Rightarrow> string \<Rightarrow> cell option" where
  "row_get cols row col = map_of (zip cols row) col"

definition row_item :: "string list \<Rightarrow> cell list \<Rightarrow> string \<Rightarrow> exn + cell" where
  "row_item cols row col =
     (case row_get cols row col of
        None \<Rightarrow> Inl (Exn KeyError (quoted col))
      | Some c \<Rightarrow> Inr c)"

text \<open>\<open>float(cell)\<close>; \<open>None\<close> is the float nan of a missing value.\<close>

definition cell_float :: "(string \<Rightarrow> rat option) \<Rightarrow> cell \<Rightarrow> exn + rat option" where
  "cell_float float_of_str c =
     (case c of
        NaN \<Rightarrow> Inr None
      | Num r \<Rightarrow> Inr (Some r)
      | Text s \<Rightarrow>
          (case float_of_str s of
             None \<Rightarrow> Inl (Exn ValueError (''could not convert string to float: '' @ quoted s))
           | Some r \<Rightarrow> Inr (Some r)))"

definition cell_str :: "(rat \<Rightarrow> string) \<Rightarrow> cell \<Rightarrow> string" where
  "cell_str str_of_num c = (case c of NaN \<Rightarrow> ''nan'' | Num r \<Rightarrow> str_of_num r | Text s \<Rightarrow> s)"

definition then_do :: "exn + 'a \<Rightarrow> ('a \<Rightarrow> exn + 'b) \<Rightarrow> exn + 'b" where
  "then_do m f = (case m of Inl e \<Rightarrow> Inl e | Inr x \<Rightarrow> f x)"

text \<open>The field constraints of \<open>PriceRecommendationRequest\<close>: both prices \<open>gt=0\<close>.\<close>

definition validate_request ::
  "rat option \<Rightarrow> rat option option \<Rightarrow> string \<Rightarrow> string \<Rightarrow> string
     \<Rightarrow> exn + PriceRecommendationRequest" where
  "validate_request cost competitor inventory seas cat =
     (case cost of
        None \<Rightarrow> Inl (Exn ValidationError ''cost_price: Input should be greater than 0'')
      | Some c \<Rightarrow>
          if \<not> 0 < c
          then Inl (Exn ValidationError ''cost_price: Input should be greater than 0'')
          else
            (case competitor of
               None \<Rightarrow>
                 Inr \<lparr>cost_price = c, competitor_price = None, inventory_level = inventory,
                      season = seas, category = cat\<rparr>
             | Some None \<Rightarrow>
                 Inl (Exn ValidationError ''competitor_price: Input should be greater than 0'')
             | Some (Some p) \<Rightarrow>
                 if \<not> 0 < p
                 then Inl (Exn ValidationError
                             ''competitor_price: Input should be greater than 0'')
                 else Inr \<lparr>cost_price = c, competitor_price = Some p,
                           inventory_level = inventory, season = seas, category = cat\<rparr>))"

text \<open>The construction of \<open>request_data\<close> from a row, argument by argument.\<close>

definition request_of_row ::
  "(string \<Rightarrow> rat option) \<Rightarrow> (rat \<Rightarrow> string) \<Rightarrow> string list \<Rightarrow> cell list
     \<Rightarrow> exn + PriceRecommendationRequest" where
  "request_of_row float_of_str str_of_num cols row =
     then_do (row_item cols row ''cost_price'') (\<lambda>cost_cell.
     then_do (cell_float float_of_str cost_cell) (\<lambda>cost.
     then_do (case row_get cols row ''competitor_price'' of
                None \<Rightarrow> Inr None
              | Some NaN \<Rightarrow> Inr None
              | Some c \<Rightarrow> then_do (cell_float float_of_str c) (\<lambda>p. Inr (Some p)))
       (\<lambda>competitor.
     then_do (row_item cols row ''inventory_level'') (\<lambda>inventory_cell.
     then_do (row_item cols row ''season'') (\<lambda>season_cell.
     then_do (row_item cols row ''category'') (\<lambda>category_cell.
       validate_request cost competitor
         (cell_str str_of_num inventory_cell)
         (cell_str str_of_num season_cell)
         (cell_str str_of_num category_cell)))))))"

text \<open>
  One pass of the loop body for the row at position \<open>position\<close> with the label
  \<open>index\<close>. The body of the \<open>try\<close> builds the request, asks for the recommendation and
  builds the entry, evaluating \<open>index + 1\<close>; the handler builds the failed entry,
  evaluating \<open>index + 1\<close> again, and what that raises is not caught in the loop. What
  returns is the entry appended to \<open>results\<close>, with the entry appended to
  \<open>suggestions_to_save\<close> when the row succeeded.
\<close>

definition row_body ::
  "(string \<Rightarrow> exn + json) \<Rightarrow> (json \<Rightarrow> exn + PriceRecommendationResponse)
     \<Rightarrow> (string \<Rightarrow> rat option) \<Rightarrow> (rat \<Rightarrow> string) \<Rightarrow> (nat \<Rightarrow> generated)
     \<Rightarrow> string list \<Rightarrow> nat \<Rightarrow> label \<Rightarrow> cell list
     \<Rightarrow> exn + row_result \<times> (PriceRecommendationRequest \<times> PriceRecommendationResponse)" where
  "row_body loads build float_of_str str_of_num replies cols position index row =
     then_do (request_of_row float_of_str str_of_num cols row) (\<lambda>request_data.
       let recommendation =
             get_price_recommendation loads build (replies position) request_data
       in then_do (index_plus_one index) (\<lambda>number.
            Inr (RowSuccess number request_data (suggested_price recommendation)
                   (reasoning recommendation) (confidence_score recommendation),
                 (request_data, recommendation))))"

definition row_handler :: "string list \<Rightarrow> label \<Rightarrow> cell list \<Rightarrow> exn \<Rightarrow> exn + row_result" where
  "row_handler cols index row e =
     then_do (index_plus_one index) (\<lambda>number.
       Inr (RowFailed number (zip cols row) (exn_msg e)))"

definition process_row ::
  "(string \<Rightarrow> exn + json) \<Rightarrow> (json \<Rightarrow> exn + PriceRecommendationResponse)
     \<Rightarrow> (string \<Rightarrow> rat option) \<Rightarrow> (rat \<Rightarrow> string) \<Rightarrow> (nat \<Rightarrow> generated)
     \<Rightarrow> string list \<Rightarrow> nat \<Rightarrow> label \<Rightarrow> cell list
     \<Rightarrow> exn + row_result \<times> (PriceRecommendationRequest \<times> PriceRecommendationResponse) option"
  where
  "process_row loads build float_of_str str_of_num replies cols position index row =
     (case row_body loads build float_of_str str_of_num replies cols position index row of
        Inr (result, saved) \<Rightarrow> Inr (result, Some saved)
      | Inl e \<Rightarrow>
          (case row_handler cols index row e of
             Inl e' \<Rightarrow> Inl e'
           | Inr result \<Rightarrow> Inr (result, None)))"

text \<open>The loop over \<open>df.iterrows()\<close>, threading the counters and the two lists; an
  exception that leaves a pass ends the loop.\<close>

fun process_rows ::
  "(string \<Rightarrow> exn + json) \<Rightarrow> (json \<Rightarrow> exn + PriceRecommendationResponse)
     \<Rightarrow> (string \<Rightarrow> rat option) \<Rightarrow> (rat \<Rightarrow> string) \<Rightarrow> (nat \<Rightarrow> generated)
     \<Rightarrow> string list \<Rightarrow> nat \<Rightarrow> (label \<times> cell list) list
     \<Rightarrow> CSVUploadResponse \<times> (PriceRecommendationRequest \<times> PriceRecommendationResponse) list
     \<Rightarrow> exn + CSVUploadResponse
               \<times> (PriceRecommendationRequest \<times> PriceRecommendationResponse) list"
  where
  "process_rows loads build float_of_str str_of_num replies cols position [] acc = Inr acc"
| "process_rows loads build float_of_str str_of_num replies cols position ((index, row) # rest)
     (resp, suggestions_to_save) =
     (case process_row loads build float_of_str str_of_num replies cols position index row of
        Inl e \<Rightarrow> Inl e
      | Inr (result, Some saved) \<Rightarrow>
          process_rows loads build float_of_str str_of_num replies cols (position + 1) rest
            (resp\<lparr>results := results resp @ [result],
                  successful_predictions := successful_predictions resp + 1\<rparr>,
             suggestions_to_save @ [saved])
      | Inr (result, None) \<Rightarrow>
          process_rows loads build float_of_str str_of_num replies cols (position + 1) rest
            (resp\<lparr>results := results resp @ [result],
                  failed_predictions := failed_predictions resp + 1\<rparr>,
             suggestions_to_save))"

definition repr_strs :: "string list \<Rightarrow> string" where
  "repr_strs xs = ''['' @ concat (map quoted (take 1 xs))
                  @ concat (map (\<lambda>x. '', '' @ quoted x) (drop 1 xs)) @ '']''"

text \<open>
  The handler. The check of the file name stands before the \<open>try\<close>; the check of the
  columns and the loop stand inside it, where the last handler catches every exception
  and raises status 500 in its place, quoting the caught exception: an \<open>HTTPException\<close>
  as the web framework prints it (status, colon, detail). The batch save after the loop
  writes to the primary store only and its failure is caught and logged: the response
  does not depend on it.
\<close>

definition upload_csv ::
  "(string \<Rightarrow> exn + json) \<Rightarrow> (json \<Rightarrow> exn + PriceRecommendationResponse)
     \<Rightarrow> (string \<Rightarrow> rat option) \<Rightarrow> (rat \<Rightarrow> string) \<Rightarrow> (nat \<Rightarrow> generated)
     \<Rightarrow> string \<Rightarrow> dataframe \<Rightarrow> http_error + CSVUploadResponse" where
  "upload_csv loads build float_of_str str_of_num replies filename df =
     (if \<not> suffix ''.csv'' filename
      then Inl (HTTPException 400 ''File must be a CSV file'')
      else
        let missing_columns = filter (\<lambda>col. col \<notin> set (df_columns df)) required_columns
        in if missing_columns \<noteq> []
           then Inl (HTTPException 500
                       (''Error processing CSV file: '' @ ''400: ''
                        @ ''Missing required columns: '' @ repr_strs missing_columns))
           else
             (case process_rows loads build float_of_str str_of_num replies
                     (df_columns df) 0 (df_rows df)
                     (\<lparr>total_products = length (df_rows df),
                       successful_predictions = 0, failed_predictions = 0,
                       results = []\<rparr>, []) of
                Inl e \<Rightarrow> Inl (HTTPException 500 (''Error processing CSV file: '' @ exn_msg e))
              | Inr (resp, suggestions_to_save) \<Rightarrow> Inr resp))"

text \<open>
  The entry of a row whose number is known, and the labels of a frame whose data rows
  have as many fields as the header.
\<close>

definition row_entry ::
  "(string \<Rightarrow> exn + json) \<Rightarrow> (json \<Rightarrow> exn + PriceRecommendationResponse)
     \<Rightarrow> (string \<Rightarrow> rat option) \<Rightarrow> (rat \<Rightarrow> string) \<Rightarrow> (nat \<Rightarrow> generated)
     \<Rightarrow> string list \<Rightarrow> nat \<Rightarrow> label \<Rightarrow> cell list
     \<Rightarrow> row_result \<times> (PriceRecommendationRequest \<times> PriceRecommendationResponse) option"
  where
  "row_entry loads build float_of_str str_of_num replies cols position number row =
     (case request_of_row float_of_str str_of_num cols row of
        Inr request_data \<Rightarrow>
          (let recommendation =
                 get_price_recommendation loads build (replies position) request_data
           in (RowSuccess number request_data (suggested_price recommendation)
                 (reasoning recommendation) (confidence_score recommendation),
               Some (request_data, recommendation)))
      | Inl e \<Rightarrow> (RowFailed number (zip cols row) (exn_msg e), None))"

definition range_index :: "nat \<Rightarrow> nat \<Rightarrow> label list" where
  "range_index start n = map (\<lambda>i. IntLabel (int i)) [start..<start + n]"

section \<open>Concrete inputs\<close>

text \<open>A request, and an environment in which the model cannot be reached, answers in
  prose, answers with nothing, or answers with an object that lacks a key.\<close>

definition example_request :: "rat \<Rightarrow> PriceRecommendationRequest" where
  "example_request c =
     \<lparr>cost_price = c, competitor_price = Some (27 / 2), inventory_level = ''high'',
      season = ''summer'', category = ''skincare''\<rparr>"

definition reject_all :: "string \<Rightarrow> exn + json" where
  "reject_all s = Inl (Exn JSONDecodeError ''Expecting value'')"

definition build_none :: "json \<Rightarrow> exn + PriceRecommendationResponse" where
  "build_none v = Inl (Exn ValueError ''validation error'')"

definition unavailable :: generated where
  "unavailable = Inl (Exn LibraryError ''503 Service Unavailable'')"

definition prose :: generated where
  "prose = Inr (Some ''Sure! A fair price is 15 dollars.'')"

definition empty_text :: generated where
  "empty_text = Inr (Some [])"

text \<open>A reply of a hundred thousand opening brackets, and what \<open>json.loads\<close> does
  with it: the parser descends once per bracket and exceeds the recursion limit.\<close>

definition deep_text :: generated where
  "deep_text = Inr (Some (replicate 100000 CHR ''[''))"

definition too_deep :: "string \<Rightarrow> exn + json" where
  "too_deep s =
     Inl (Exn RecursionError
            ''maximum recursion depth exceeded while decoding a JSON document'')"

definition partial_object :: "string \<Rightarrow> exn + json" where
  "partial_object s = Inr (JObj [(''suggested_price'', JFloat (25 / 2)), (''reasoning'', JStr ''ok'')])"

definition partial_text :: generated where
  "partial_text = Inr (Some ''{\"suggested_price\": 12.5, \"reasoning\": \"ok\"}'')"

text \<open>A currency service with nothing cached, and a network that is down.\<close>

definition empty_service :: CurrencyExchangeService where
  "empty_service = \<lparr>cache = (\<lambda>k. None), cache_expiry = (\<lambda>k. None)\<rparr>"

definition offline :: fetcher where
  "offline url = Inl (Exn LibraryError ''connection refused'')"

text \<open>A user, a working disk and clock, a payload, and a file that holds a hundred records.\<close>

definition alice :: User where
  "alice = \<lparr>sub = ''auth0|alice'', email = None, name = None\<rparr>"

definition working :: io where
  "working = \<lparr>read_ok = True, write_ok = True, now_timestamp = 1700000000,
              utcnow_iso = ''2023-11-14T22:13:20.000123'',
              last_updated_iso = ''2023-11-14T22:13:20.000456''\<rparr>"

definition payload :: "(string \<times> json) list" where
  "payload = [(''product_data'', JObj [(''cost_price'', JFloat 10)]),
              (''suggested_price'', JFloat 14), (''reasoning'', JStr ''Emergency fallback''),
              (''confidence_score'', JFloat (1 / 2))]"

definition old_record :: "nat \<Rightarrow> suggestion" where
  "old_record i =
     \<lparr>sg_id = ''local_'' @ str_nat i @ ''_1600000000'', sg_user_id = ''auth0|alice'',
      sg_product_data = JObj [], sg_suggested_price = JFloat (of_nat i), sg_reasoning = JNull,
      sg_confidence_score = JNull, sg_timestamp = ''2020-09-13T12:26:40''\<rparr>"

definition full_file :: user_file where
  "full_file = \<lparr>uf_user_id = ''auth0|alice'', uf_suggestions = map old_record [0..<100],
                uf_last_updated = ''2020-09-13T12:26:40''\<rparr>"

definition full_disk :: disk where
  "full_disk = (\<lambda>path. None)(get_user_file_path ''auth0|alice'' \<mapsto> full_file)"

text \<open>A data store without a connection, a later moment, and an insert that would have
  succeeded.\<close>

definition no_connection :: DatabaseService where
  "no_connection = \<lparr>database = None\<rparr>"

definition later :: io where
  "later = \<lparr>read_ok = True, write_ok = True, now_timestamp = 1700000060,
            utcnow_iso = ''2023-11-14T22:14:20.000123'',
            last_updated_iso = ''2023-11-14T22:14:20.000456''\<rparr>"

definition inserted :: insert_outcome where
  "inserted = Inserted ''655403d0a1b2c3d4e5f60718''"

text \<open>A moment at which the user's file cannot be written, a data store that is
  connected and empty, and an insert that raises without having stored anything.\<close>

definition unwritable :: io where
  "unwritable = \<lparr>read_ok = True, write_ok = False, now_timestamp = 1700000000,
                 utcnow_iso = ''2023-11-14T22:13:20.000123'',
                 last_updated_iso = ''2023-11-14T22:13:20.000456''\<rparr>"

definition connected :: DatabaseService where
  "connected = \<lparr>database = Some []\<rparr>"

definition refused :: insert_outcome where
  "refused = InsertRaised (Exn LibraryError ''connection refused'') None"

text \<open>A float parser that knows one text, and a data frame of three rows whose second row
  has a cost that is not a number.\<close>

definition simple_float :: "string \<Rightarrow> rat option" where
  "simple_float s = (if s = ''12.5'' then Some (25 / 2) else None)"

definition no_print :: "rat \<Rightarrow> string" where
  "no_print r = []"

definition example_df :: dataframe where
  "example_df =
     \<lparr>df_columns = [''cost_price'', ''competitor_price'', ''inventory_level'', ''season'',
                     ''category''],
      df_rows =
        [(IntLabel 0, [Num 10, Num (27 / 2), Text ''high'', Text ''summer'', Text ''skincare'']),
         (IntLabel 1, [Text ''abc'', NaN, Text ''low'', Text ''winter'', Text ''toys'']),
         (IntLabel 2, [Num 20, NaN, Text ''medium'', Text ''spring'', Text ''books''])]\<rparr>"

text \<open>
  The frame \<open>read_csv\<close> makes of a file whose header names the four required columns
  and whose two data rows begin with a product code that the header does not name:
  \<open>A1,10.0,high,summer,skincare\<close> and \<open>A2,20.0,low,winter,toys\<close>. The codes are the
  labels of the rows.
\<close>

definition labelled_df :: dataframe where
  "labelled_df =
     \<lparr>df_columns = [''cost_price'', ''inventory_level'', ''season'', ''category''],
      df_rows =
        [(TextLabel ''A1'', [Num 10, Text ''high'', Text ''summer'', Text ''skincare'']),
         (TextLabel ''A2'', [Num 20, Text ''low'', Text ''winter'', Text ''toys''])]\<rparr>"

text \<open>A float parser that knows two texts, a stored record with a given price, a price that
  is a dictionary, and a disk that holds records with given prices.\<close>

definition price_float :: "string \<Rightarrow> rat option" where
  "price_float s =
     (if s = ''1234.50'' then Some (2469 / 2) else if s = ''12.5'' then Some (25 / 2) else None)"

definition priced :: "json \<Rightarrow> suggestion" where
  "priced price =
     \<lparr>sg_id = ''local_0_1700000000'', sg_user_id = ''auth0|alice'', sg_product_data = JObj [],
      sg_suggested_price = price, sg_reasoning = JStr ''kept'', sg_confidence_score = JNull,
      sg_timestamp = ''2023-11-14T22:13:20.000123''\<rparr>"

definition object_price :: json where
  "object_price = JObj [(''amount'', JFloat (25 / 2)), (''currency'', JStr ''USD'')]"

definition disk_with :: "json list \<Rightarrow> disk" where
  "disk_with prices =
     (\<lambda>path. None)(''local_data/user_auth0alice.json'' \<mapsto>
        \<lparr>uf_user_id = ''auth0|alice'', uf_suggestions = map priced prices,
         uf_last_updated = ''2023-11-14T22:13:20.000456''\<rparr>)"

section \<open>The recommendation engine's fallback tiers\<close>

text \<open>
  C1, as the code has it: when \<open>generate_content\<close> raises, or the response or its text is
  empty, the outer handler answers. Its price is \<open>round(cost_price * 1.4, 2)\<close>, the float
  product rounded to two decimals, and its confidence is 0.5. The product is to stay
  within the finite floats.
\<close>

theorem C1_emergency_tier:
  assumes "0 < cost_price request"
    and "\<not> overflows (cost_price request * to_double (14 / 10))"
    and "response = Inl e \<or> response = Inr None \<or> response = Inr (Some [])"
  shows "suggested_price (get_price_recommendation loads build response request)
           = py_round2 (float_mul (cost_price request) (to_double (14 / 10)))
       \<and> confidence_score (get_price_recommendation loads build response request)
           = Some (to_double (5 / 10))"
  using assms(3)
  by (auto simp: get_price_recommendation_def attempt_def emergency_fallback_def Let_def)

text \<open>
  The same answer is given whenever any exception leaves the body of the outer \<open>try\<close>,
  wherever it was raised.
\<close>

lemma escaping_error_takes_emergency_tier:
  assumes "attempt loads build response request = Inl e"
  shows "get_price_recommendation loads build response request = emergency_fallback e request"
  using assms by (simp add: get_price_recommendation_def)

text \<open>The arithmetic of the spec's example: 10.0 gives 14.0 and 15.0, and 0.5 is exact.\<close>

lemma example_prices:
  "py_round2 (float_mul (cost_price (example_request 10)) (to_double (14 / 10))) = 14"
  "py_round2 (float_mul (cost_price (example_request 10)) (to_double (15 / 10))) = 15"
  "to_double (5 / 10) = 1 / 2"
  by code_simp+

lemma example_in_range:
  "\<not> overflows (cost_price (example_request 10) * to_double (14 / 10))"
  "\<not> overflows (cost_price (example_request 10) * to_double (15 / 10))"
  by code_simp+

text \<open>C1 at the spec's example: cost 10.0 with the model unreachable gives 14.0 and 0.5.\<close>

theorem C1_emergency_tier_witness:
  "0 < cost_price (example_request 10)
   \<and> suggested_price (get_price_recommendation reject_all build_none unavailable
         (example_request 10)) = 14
   \<and> confidence_score (get_price_recommendation reject_all build_none unavailable
         (example_request 10)) = Some (1 / 2)"
proof -
  have pos: "0 < cost_price (example_request 10)"
    by (simp add: example_request_def)
  have u: "unavailable = Inl (Exn LibraryError ''503 Service Unavailable'')
           \<or> unavailable = Inr None \<or> unavailable = Inr (Some [])"
    by (simp add: unavailable_def)
  have r: "suggested_price (get_price_recommendation reject_all build_none unavailable
               (example_request 10)) = 14
           \<and> confidence_score (get_price_recommendation reject_all build_none unavailable
               (example_request 10)) = Some (1 / 2)"
    using C1_emergency_tier [where loads = reject_all and build = build_none
        and response = unavailable and request = "example_request 10"
        and e = "Exn LibraryError ''503 Service Unavailable''",
        OF pos example_in_range(1) u]
    unfolding example_prices .
  from pos r show ?thesis
    by (rule conjI)
qed

text \<open>
  C1 as the spec words it, price = 1.4 * cost_price, fails at cost 9.99: the float product
  is 13.985999999999999 (the exact product is 13.986) and the price returned is 13.99.
\<close>

theorem C1_unrounded_counterexample:
  "suggested_price (get_price_recommendation reject_all build_none unavailable
      (example_request (to_double (999 / 100)))) = to_double (1399 / 100)
   \<and> float_mul (to_double (14 / 10)) (cost_price (example_request (to_double (999 / 100))))
       = 7873418048550469 / 562949953421312
   \<and> suggested_price (get_price_recommendation reject_all build_none unavailable
        (example_request (to_double (999 / 100))))
       \<noteq> float_mul (to_double (14 / 10)) (cost_price (example_request (to_double (999 / 100))))
   \<and> suggested_price (get_price_recommendation reject_all build_none unavailable
        (example_request (to_double (999 / 100))))
       \<noteq> (14 / 10) * (999 / 100)"
  by code_simp

text \<open>
  C2, as the code has it: when the reply is a non-empty text that \<open>json.loads\<close> rejects
  with \<open>JSONDecodeError\<close>, the inner handler answers. Its price is
  \<open>round(cost_price * 1.5, 2)\<close>, the float product rounded to two decimals, and its
  confidence is 0.6. The product is to stay within the finite floats.
\<close>

theorem C2_parsing_tier:
  assumes "0 < cost_price request"
    and "\<not> overflows (cost_price request * to_double (15 / 10))"
    and "reply \<noteq> []"
    and "loads (strip reply) = Inl e"
    and "exn_class e = JSONDecodeError"
  shows "suggested_price (get_price_recommendation loads build (Inr (Some reply)) request)
           = py_round2 (float_mul (cost_price request) (to_double (15 / 10)))
       \<and> confidence_score (get_price_recommendation loads build (Inr (Some reply)) request)
           = Some (to_double (6 / 10))"
  using assms(3-5)
  by (simp add: get_price_recommendation_def attempt_def parse_reply_def
      parsing_fallback_def Let_def)

text \<open>C2 at the spec's example: cost 10.0 with a reply in prose gives 15.0 and 0.6.\<close>

theorem C2_parsing_tier_witness:
  "0 < cost_price (example_request 10)
   \<and> suggested_price (get_price_recommendation reject_all build_none prose
         (example_request 10)) = 15
   \<and> confidence_score (get_price_recommendation reject_all build_none prose
         (example_request 10)) = Some (to_double (6 / 10))"
proof -
  have pos: "0 < cost_price (example_request 10)"
    by (simp add: example_request_def)
  have t: "''Sure! A fair price is 15 dollars.'' \<noteq> []"
    by simp
  have l: "reject_all (strip ''Sure! A fair price is 15 dollars.'')
             = Inl (Exn JSONDecodeError ''Expecting value'')"
    by (simp add: reject_all_def)
  have c: "exn_class (Exn JSONDecodeError ''Expecting value'') = JSONDecodeError"
    by simp
  have r: "suggested_price (get_price_recommendation reject_all build_none prose
               (example_request 10)) = 15
           \<and> confidence_score (get_price_recommendation reject_all build_none prose
               (example_request 10)) = Some (to_double (6 / 10))"
    using C2_parsing_tier [where loads = reject_all and build = build_none
        and request = "example_request 10"
        and reply = "''Sure! A fair price is 15 dollars.''"
        and e = "Exn JSONDecodeError ''Expecting value''",
        OF pos example_in_range(2) t l c]
    unfolding example_prices prose_def .
  from pos r show ?thesis
    by (rule conjI)
qed

text \<open>
  C2 as the spec words it fails three times. At cost 1.234 the float product is 1.851 and
  the price returned is 1.85. The empty text, which \<open>json.loads\<close> rejects as well, is
  answered by the outer handler with confidence 0.5. And a text that \<open>json.loads\<close> rejects
  with another exception, as it does a nesting too deep for it, is answered by the outer
  handler too.
\<close>

theorem C2_unrounded_counterexample:
  "suggested_price (get_price_recommendation reject_all build_none
      (Inr (Some ''not json'')) (example_request (to_double (1234 / 1000))))
     = to_double (185 / 100)
   \<and> float_mul (to_double (15 / 10)) (cost_price (example_request (to_double (1234 / 1000))))
       = 2084040727565697 / 1125899906842624
   \<and> to_double (185 / 100) \<noteq> (2084040727565697 / 1125899906842624 :: rat)
   \<and> reject_all (strip []) = Inl (Exn JSONDecodeError ''Expecting value'')
   \<and> confidence_score (get_price_recommendation reject_all build_none empty_text
         (example_request 10)) = Some (1 / 2)
   \<and> confidence_score (get_price_recommendation too_deep build_none deep_text
         (example_request 10)) = Some (1 / 2)"
proof -
  have a: "suggested_price (get_price_recommendation reject_all build_none
      (Inr (Some ''not json'')) (example_request (to_double (1234 / 1000))))
     = to_double (185 / 100)
   \<and> float_mul (to_double (15 / 10)) (cost_price (example_request (to_double (1234 / 1000))))
       = 2084040727565697 / 1125899906842624
   \<and> to_double (185 / 100) \<noteq> (2084040727565697 / 1125899906842624 :: rat)
   \<and> reject_all (strip []) = Inl (Exn JSONDecodeError ''Expecting value'')
   \<and> confidence_score (get_price_recommendation reject_all build_none empty_text
         (example_request 10)) = Some (1 / 2)"
    by code_simp
  have h: "to_double (1 / 2) = 1 / 2"
    by code_simp
  have "attempt too_deep build_none deep_text (example_request 10)
      = Inl (Exn RecursionError
               ''maximum recursion depth exceeded while decoding a JSON document'')"
    by (simp add: attempt_def deep_text_def parse_reply_def too_deep_def)
  then have g: "get_price_recommendation too_deep build_none deep_text (example_request 10)
      = emergency_fallback
          (Exn RecursionError
             ''maximum recursion depth exceeded while decoding a JSON document'')
          (example_request 10)"
    by (rule escaping_error_takes_emergency_tier)
  have b: "confidence_score (get_price_recommendation too_deep build_none deep_text
         (example_request 10)) = Some (1 / 2)"
    unfolding g by (simp add: emergency_fallback_def Let_def h)
  from a b show ?thesis
    by (elim conjE, intro conjI)
qed

text \<open>On a dictionary the test of the three keys never raises.\<close>

lemma all_in_object:
  "all_in keys (JObj kvs) = Inr (set keys \<subseteq> set (map fst kvs))"
  by (induction keys) (auto simp: py_in_def)

text \<open>When the test raises, it raises \<open>TypeError\<close>.\<close>

lemma all_in_error_class:
  assumes "all_in keys result = Inl e"
  shows "exn_class e = TypeError"
  using assms
  by (induction keys) (auto simp: py_in_def split: json.splits sum.splits if_splits)

text \<open>
  A parsed reply that lacks a key makes the body of the outer \<open>try\<close> raise: the
  \<open>ValueError\<close> of the check, or the \<open>TypeError\<close> of a value that is not a container.
  Neither is a \<open>JSONDecodeError\<close>.
\<close>

lemma missing_key_raises:
  assumes "reply \<noteq> []"
    and "loads (strip reply) = Inr result"
    and "all_in required_fields result \<noteq> Inr True"
  shows "\<exists>e. attempt loads build (Inr (Some reply)) request = Inl e
           \<and> exn_class e \<noteq> JSONDecodeError
           \<and> (\<forall>kvs. result = JObj kvs \<longrightarrow>
                 e = Exn ValueError ''Missing required fields in Gemini response'')"
proof (cases "all_in required_fields result")
  case (Inl e)
  then have c: "exn_class e = TypeError"
    by (rule all_in_error_class)
  from Inl have "\<forall>kvs. result \<noteq> JObj kvs"
    by (auto simp: all_in_object)
  with assms(1,2) Inl c show ?thesis
    by (auto simp: attempt_def parse_reply_def)
next
  case (Inr present)
  with assms(3) have "\<not> present"
    by simp
  with assms(1,2) Inr show ?thesis
    by (auto simp: attempt_def parse_reply_def)
qed

text \<open>The two tiers never give the same answer: their confidences differ.\<close>

lemma tiers_differ: "emergency_fallback e request \<noteq> parsing_fallback request"
proof -
  have "to_double (5 / 10) \<noteq> to_double (6 / 10)"
    by code_simp
  then have "confidence_score (emergency_fallback e request)
          \<noteq> confidence_score (parsing_fallback request)"
    by (simp add: emergency_fallback_def parsing_fallback_def Let_def)
  then show ?thesis
    by metis
qed

text \<open>
  C9, as the code has it: when the reply parses to a JSON value that lacks one of the
  three keys, an exception that is not a \<open>JSONDecodeError\<close> leaves the inner \<open>try\<close> (for a
  JSON object it is the \<open>ValueError\<close> of the missing-key check), the outer handler
  answers with the emergency tier, price \<open>round(cost_price * 1.4, 2)\<close> and confidence 0.5,
  and that is not the answer of the parse-failure tier.
\<close>

theorem C9_missing_key:
  assumes "0 < cost_price request"
    and "\<not> overflows (cost_price request * to_double (14 / 10))"
    and "reply \<noteq> []"
    and "loads (strip reply) = Inr result"
    and "all_in required_fields result \<noteq> Inr True"
  shows "(\<exists>e. attempt loads build (Inr (Some reply)) request = Inl e
            \<and> exn_class e \<noteq> JSONDecodeError
            \<and> (\<forall>kvs. result = JObj kvs \<longrightarrow>
                  e = Exn ValueError ''Missing required fields in Gemini response'')
            \<and> get_price_recommendation loads build (Inr (Some reply)) request
                = emergency_fallback e request)
       \<and> suggested_price (get_price_recommendation loads build (Inr (Some reply)) request)
           = py_round2 (float_mul (cost_price request) (to_double (14 / 10)))
       \<and> confidence_score (get_price_recommendation loads build (Inr (Some reply)) request)
           = Some (to_double (5 / 10))
       \<and> get_price_recommendation loads build (Inr (Some reply)) request
           \<noteq> parsing_fallback request"
proof -
  from missing_key_raises [where loads = loads and build = build and request = request
      and reply = reply and result = result, OF assms(3-5)]
  obtain e where a: "attempt loads build (Inr (Some reply)) request = Inl e"
    and c: "exn_class e \<noteq> JSONDecodeError"
    and v: "\<forall>kvs. result = JObj kvs \<longrightarrow>
              e = Exn ValueError ''Missing required fields in Gemini response''"
    by blast
  from a have g: "get_price_recommendation loads build (Inr (Some reply)) request
      = emergency_fallback e request"
    by (rule escaping_error_takes_emergency_tier)
  have d: "get_price_recommendation loads build (Inr (Some reply)) request
             \<noteq> parsing_fallback request"
    unfolding g by (rule tiers_differ)
  have p: "suggested_price (get_price_recommendation loads build (Inr (Some reply)) request)
             = py_round2 (float_mul (cost_price request) (to_double (14 / 10)))"
    by (simp add: g emergency_fallback_def Let_def)
  have s: "confidence_score (get_price_recommendation loads build (Inr (Some reply)) request)
             = Some (to_double (5 / 10))"
    by (simp add: g emergency_fallback_def Let_def)
  from a c v g p s d show ?thesis
    by blast
qed

text \<open>C9 at a reply with a price and a reasoning but no confidence score, at cost 10.0.\<close>

theorem C9_missing_key_witness:
  "0 < cost_price (example_request 10)
   \<and> all_in required_fields
         (JObj [(''suggested_price'', JFloat (25 / 2)), (''reasoning'', JStr ''ok'')])
       \<noteq> Inr True
   \<and> suggested_price (get_price_recommendation partial_object build_none partial_text
         (example_request 10)) = 14
   \<and> confidence_score (get_price_recommendation partial_object build_none partial_text
         (example_request 10)) = Some (1 / 2)
   \<and> get_price_recommendation partial_object build_none partial_text (example_request 10)
       \<noteq> parsing_fallback (example_request 10)"
proof -
  have pos: "0 < cost_price (example_request 10)"
    by (simp add: example_request_def)
  have t: "''{\"suggested_price\": 12.5, \"reasoning\": \"ok\"}'' \<noteq> []"
    by simp
  have l: "partial_object (strip ''{\"suggested_price\": 12.5, \"reasoning\": \"ok\"}'')
             = Inr (JObj [(''suggested_price'', JFloat (25 / 2)), (''reasoning'', JStr ''ok'')])"
    by (simp add: partial_object_def)
  have m: "all_in required_fields
             (JObj [(''suggested_price'', JFloat (25 / 2)), (''reasoning'', JStr ''ok'')])
           \<noteq> Inr True"
    by (simp add: all_in_object required_fields_def)
  note inst = C9_missing_key [where loads = partial_object and build = build_none
      and request = "example_request 10"
      and reply = "''{\"suggested_price\": 12.5, \"reasoning\": \"ok\"}''"
      and result = "JObj [(''suggested_price'', JFloat (25 / 2)), (''reasoning'', JStr ''ok'')]",
      OF pos example_in_range(1) t l m, folded partial_text_def, unfolded example_prices]
  from inst have p: "suggested_price (get_price_recommendation partial_object build_none
        partial_text (example_request 10)) = 14"
    by (rule conjunct1 [OF conjunct2])
  from inst have c: "confidence_score (get_price_recommendation partial_object build_none
        partial_text (example_request 10)) = Some (1 / 2)"
    by (rule conjunct1 [OF conjunct2 [OF conjunct2]])
  from inst have d: "get_price_recommendation partial_object build_none partial_text
        (example_request 10) \<noteq> parsing_fallback (example_request 10)"
    by (rule conjunct2 [OF conjunct2 [OF conjunct2]])
  from pos m p c d show ?thesis
    by (intro conjI)
qed

text \<open>
  C9 as it is worded, the price of the emergency tier being 1.4 * cost_price, fails at
  cost 9.99 with a reply that lacks a key: the float product is 13.985999999999999 and
  the price returned is 13.99.
\<close>

theorem C9_unrounded_counterexample:
  "suggested_price (get_price_recommendation partial_object build_none partial_text
      (example_request (to_double (999 / 100)))) = to_double (1399 / 100)
   \<and> float_mul (to_double (14 / 10)) (cost_price (example_request (to_double (999 / 100))))
       = 7873418048550469 / 562949953421312
   \<and> to_double (1399 / 100) \<noteq> (7873418048550469 / 562949953421312 :: rat)
   \<and> to_double (1399 / 100) \<noteq> ((14 / 10) * (999 / 100) :: rat)"
  by code_simp

section \<open>The currency converter\<close>

text \<open>
  C7: converting an amount from a currency to itself returns the amount unchanged with
  the rate 1.0, and so does every pair of codes that are equal once upper-cased. The
  result is the same whatever the HTTP client would answer and whatever the cache holds,
  and the service object is handed back untouched: no rate source is consulted.
\<close>

theorem C7_same_currency:
  "convert_currency fetch now self amount x x = ((amount, [(x @ ''_to_'' @ x, JFloat 1)]), self)
   \<and> (upper from_currency = upper to_currency \<longrightarrow>
        convert_currency fetch now self amount from_currency to_currency
          = ((amount, [(from_currency @ ''_to_'' @ to_currency, JFloat 1)]), self))"
  by (simp add: convert_currency_def)

text \<open>
  C7 at 19.99 from \<open>usd\<close> to \<open>USD\<close>, with the network down and nothing cached.
\<close>

theorem C7_same_currency_witness:
  "upper ''usd'' = upper ''USD''
   \<and> convert_currency offline 0 empty_service (1999 / 100) ''usd'' ''USD''
       = ((1999 / 100, [(''usd_to_USD'', JFloat 1)]), empty_service)"
proof -
  have u: "upper ''usd'' = upper ''USD''"
    by code_simp
  from C7_same_currency [of offline 0 empty_service "1999 / 100" "''usd''" "''usd''" "''USD''"] u
  show ?thesis by simp
qed

text \<open>
  Looking a currency up in a re-based table is looking it up in the table and dividing.
\<close>

lemma map_of_scaled:
  "map_of (map (\<lambda>(currency, rate). (currency, rate / b)) xs) c
     = map_option (\<lambda>rate. rate / b) (map_of xs c)"
  by (induction xs) auto

text \<open>
  No rate of the static table is zero.
\<close>

lemma fallback_rate_nonzero:
  assumes "map_of fallback_rates c = Some r"
  shows "r \<noteq> 0"
proof -
  from assms have "(c, r) \<in> set fallback_rates"
    by (rule map_of_SomeD)
  then show ?thesis
    by (auto simp: fallback_rates_def)
qed

text \<open>
  Without a fresh cache entry, a request that raises, a status other than 200 and a body
  that cannot be read all end in \<open>_get_fallback_rates\<close>, and nothing is cached.
\<close>

lemma fetch_failure_gives_fallback:
  assumes "\<not> cache_fresh self now (''rates_'' @ base)"
    and "fetch (base_url @ ''/'' @ base) = Inl e
         \<or> fetch (base_url @ ''/'' @ base) = Inr (HttpResponse code body)
            \<and> (code \<noteq> 200 \<or> body = Inl e)"
  shows "get_exchange_rates fetch now self base = (get_fallback_rates base, self)"
  using assms by (auto simp: get_exchange_rates_def Let_def)

text \<open>
  C8, as the code has it: when the fetch fails, base USD gets the static table of ten
  currencies; a base listed in the table gets every rate divided by the base's own rate,
  so the base maps to 1.0; a base that is not listed gets the divisor 1.0, that is the
  USD table unchanged.
\<close>

theorem C8_fallback_table:
  assumes "\<not> cache_fresh self now (''rates_'' @ base)"
    and "fetch (base_url @ ''/'' @ base) = Inl e
         \<or> fetch (base_url @ ''/'' @ base) = Inr (HttpResponse code body)
            \<and> (code \<noteq> 200 \<or> body = Inl e)"
  shows "length fallback_rates = 10
     \<and> (base = ''USD'' \<longrightarrow> fst (get_exchange_rates fetch now self base) = fallback_rates)
     \<and> (base \<noteq> ''USD'' \<longrightarrow> map_of fallback_rates base = Some b \<longrightarrow>
          map_of (fst (get_exchange_rates fetch now self base)) base = Some 1
          \<and> (\<forall>c r. map_of fallback_rates c = Some r \<longrightarrow>
                map_of (fst (get_exchange_rates fetch now self base)) c = Some (r / b))
          \<and> map fst (fst (get_exchange_rates fetch now self base)) = map fst fallback_rates)
     \<and> (base \<noteq> ''USD'' \<longrightarrow> map_of fallback_rates base = None \<longrightarrow>
          fst (get_exchange_rates fetch now self base) = fallback_rates)"
proof -
  have g: "fst (get_exchange_rates fetch now self base) = get_fallback_rates base"
    using fetch_failure_gives_fallback
      [where fetch = fetch and self = self and now = now and base = base and e = e
         and code = code and body = body, OF assms]
    by simp
  have n: "length fallback_rates = 10"
    by (simp add: fallback_rates_def)
  have usd: "base = ''USD'' \<longrightarrow> get_fallback_rates base = fallback_rates"
    by (simp add: get_fallback_rates_def)
  have listed: "map_of (get_fallback_rates base) base = Some 1
      \<and> (\<forall>c r. map_of fallback_rates c = Some r \<longrightarrow>
             map_of (get_fallback_rates base) c = Some (r / b))
      \<and> map fst (get_fallback_rates base) = map fst fallback_rates"
    if "base \<noteq> ''USD''" and "map_of fallback_rates base = Some b"
  proof -
    from that have d: "get_fallback_rates base
        = map (\<lambda>(currency, rate). (currency, rate / b)) fallback_rates"
      by (simp add: get_fallback_rates_def)
    from that(2) have "b \<noteq> 0"
      by (rule fallback_rate_nonzero)
    have k: "map fst (map (\<lambda>(currency, rate). (currency, rate / b)) xs) = map fst xs"
      for xs :: rates
      by (induction xs) auto
    have m: "map fst (get_fallback_rates base) = map fst fallback_rates"
      unfolding d by (rule k)
    from that(2) \<open>b \<noteq> 0\<close> have "map_of (get_fallback_rates base) base = Some 1
      \<and> (\<forall>c r. map_of fallback_rates c = Some r \<longrightarrow>
             map_of (get_fallback_rates base) c = Some (r / b))"
      by (simp add: d map_of_scaled)
    with m show ?thesis by blast
  qed
  have unlisted: "get_fallback_rates base = fallback_rates"
    if "base \<noteq> ''USD''" and "map_of fallback_rates base = None"
    using that by (simp add: get_fallback_rates_def case_prod_unfold)
  from n usd listed unlisted show ?thesis
    unfolding g by blast
qed

text \<open>
  C8 at base EUR with the network down: EUR maps to 1.0 and JPY to 110 / 0.85.
\<close>

theorem C8_fallback_table_witness:
  "\<not> cache_fresh empty_service 0 (''rates_'' @ ''EUR'')
   \<and> offline (base_url @ ''/'' @ ''EUR'') = Inl (Exn LibraryError ''connection refused'')
   \<and> map_of fallback_rates ''EUR'' = Some (85 / 100)
   \<and> map_of (fst (get_exchange_rates offline 0 empty_service ''EUR'')) ''EUR'' = Some 1
   \<and> map_of (fst (get_exchange_rates offline 0 empty_service ''EUR'')) ''JPY''
       = Some (110 / (85 / 100))"
proof -
  have c: "\<not> cache_fresh empty_service 0 (''rates_'' @ ''EUR'')"
    by (simp add: cache_fresh_def empty_service_def)
  have f: "offline (base_url @ ''/'' @ ''EUR'') = Inl (Exn LibraryError ''connection refused'')
           \<or> offline (base_url @ ''/'' @ ''EUR'') = Inr (HttpResponse 500 (Inr None))
              \<and> (500 \<noteq> (200::int) \<or> Inr None = Inl (Exn LibraryError ''connection refused''))"
    by (simp add: offline_def)
  have e: "map_of fallback_rates ''EUR'' = Some (85 / 100)"
    by (simp add: fallback_rates_def)
  have j: "map_of fallback_rates ''JPY'' = Some 110"
    by (simp add: fallback_rates_def)
  from C8_fallback_table
    [where fetch = offline and self = empty_service and now = 0 and base = "''EUR''"
       and e = "Exn LibraryError ''connection refused''" and code = 500 and body = "Inr None"
       and b = "85 / 100", OF c f] e j
  show ?thesis using c by (simp add: offline_def)
qed

text \<open>
  C8 as the spec words it, for every base other than USD, fails at base BRL: the table
  has no rate of its own for BRL, the rates returned are the USD table, and BRL does not
  map to 1.0.
\<close>

theorem C8_unlisted_base_counterexample:
  "''BRL'' \<noteq> ''USD''
   \<and> fst (get_exchange_rates offline 0 empty_service ''BRL'') = fallback_rates
   \<and> map_of fallback_rates ''BRL'' = None
   \<and> map_of (fst (get_exchange_rates offline 0 empty_service ''BRL'')) ''BRL'' = None
   \<and> map_of (fst (get_exchange_rates offline 0 empty_service ''BRL'')) ''BRL'' \<noteq> Some 1"
  by (simp add: get_exchange_rates_def cache_fresh_def empty_service_def offline_def
      get_fallback_rates_def fallback_rates_def Let_def)

section \<open>The local file store\<close>

text \<open>
  One save keeps every file at a hundred records or fewer, whatever the disk does: it
  writes the last hundred of the list it built, or writes nothing.
\<close>

lemma save_keeps_cap:
  assumes "\<forall>path f. files path = Some f \<longrightarrow> length (uf_suggestions f) \<le> 100"
  shows "\<forall>path f. snd (local_storage_save_price_suggestion env files user suggestion_data) path
             = Some f \<longrightarrow> length (uf_suggestions f) \<le> 100"
  using assms
  by (auto simp: local_storage_save_price_suggestion_def save_user_data_def last_100_def
      Let_def split: if_splits)

text \<open>
  So does every sequence of saves, by induction on the sequence.
\<close>

lemma save_all_keeps_cap:
  assumes "\<forall>path f. files path = Some f \<longrightarrow> length (uf_suggestions f) \<le> 100"
  shows "\<forall>path f. save_all calls files path = Some f \<longrightarrow> length (uf_suggestions f) \<le> 100"
  using assms
proof (induction calls arbitrary: files)
  case Nil
  then show ?case by simp
next
  case (Cons call calls)
  obtain env user suggestion_data where c: "call = (env, user, suggestion_data)"
    by (cases call)
  have "\<forall>path f. snd (local_storage_save_price_suggestion env files user suggestion_data) path
             = Some f \<longrightarrow> length (uf_suggestions f) \<le> 100"
    using Cons.prems by (rule save_keeps_cap)
  then show ?case
    unfolding c save_all.simps by (rule Cons.IH)
qed

text \<open>
  A save onto a file of exactly a hundred records, with the disk working, writes the old
  records but the first, followed by the new one; the new id counts the hundred read.
\<close>

lemma save_at_cap:
  assumes "read_ok env" and "write_ok env"
    and "files (get_user_file_path (sub user)) = Some stored"
    and "length (uf_suggestions stored) = 100"
  shows "local_storage_save_price_suggestion env files user suggestion_data
     = (sg_id (new_suggestion env 100 user suggestion_data),
        files(get_user_file_path (sub user) \<mapsto>
          \<lparr>uf_user_id = sub user,
           uf_suggestions = tl (uf_suggestions stored)
                            @ [new_suggestion env 100 user suggestion_data],
           uf_last_updated = last_updated_iso env\<rparr>))"
proof -
  have "drop 1 (xs @ [x]) = tl xs @ [x]" if "length xs = 100" for xs :: "suggestion list" and x
    using that by (cases xs) auto
  with assms show ?thesis
    by (simp add: local_storage_save_price_suggestion_def save_user_data_def
        load_user_data_def last_100_def Let_def)
qed

text \<open>
  C3: from a store whose files hold at most 100 records each (the empty store is one),
  every sequence of saves, by any users and with any outcome of the disk operations,
  leaves every file with at most 100 records; and a save that finds 100 records stored
  drops the oldest, the head of the list, and appends the new record.
\<close>

theorem C3_cap_and_eviction:
  assumes "\<forall>path f. files path = Some f \<longrightarrow> length (uf_suggestions f) \<le> 100"
  shows "(\<forall>path f. save_all calls files path = Some f \<longrightarrow> length (uf_suggestions f) \<le> 100)
     \<and> (read_ok env \<longrightarrow> write_ok env \<longrightarrow>
          files (get_user_file_path (sub user)) = Some stored \<longrightarrow>
          length (uf_suggestions stored) = 100 \<longrightarrow>
            local_storage_save_price_suggestion env files user suggestion_data
              = (sg_id (new_suggestion env 100 user suggestion_data),
                 files(get_user_file_path (sub user) \<mapsto>
                   \<lparr>uf_user_id = sub user,
                    uf_suggestions = tl (uf_suggestions stored)
                                     @ [new_suggestion env 100 user suggestion_data],
                    uf_last_updated = last_updated_iso env\<rparr>)))"
  using save_all_keeps_cap [OF assms] save_at_cap by blast

text \<open>
  The store of the example: one user with a hundred records.
\<close>

lemma full_disk_capped:
  "\<forall>path f. full_disk path = Some f \<longrightarrow> length (uf_suggestions f) \<le> 100"
  by (simp add: full_disk_def full_file_def)

text \<open>
  C3 at a user with records 0 to 99 stored: after one save the file holds records 1 to 99
  and the new one, a hundred in all, and after two saves it still holds at most a hundred.
\<close>

theorem C3_cap_and_eviction_witness:
  "read_ok working \<and> write_ok working
   \<and> full_disk (get_user_file_path (sub alice)) = Some full_file
   \<and> length (uf_suggestions full_file) = 100
   \<and> snd (local_storage_save_price_suggestion working full_disk alice payload)
        (get_user_file_path (sub alice))
      = Some \<lparr>uf_user_id = sub alice,
              uf_suggestions = map old_record [1..<100] @ [new_suggestion working 100 alice payload],
              uf_last_updated = last_updated_iso working\<rparr>
   \<and> length (map old_record [1..<100] @ [new_suggestion working 100 alice payload]) = 100
   \<and> (\<exists>f. save_all [(working, alice, payload), (working, alice, payload)] full_disk
             (get_user_file_path (sub alice)) = Some f
          \<and> length (uf_suggestions f) \<le> 100)"
proof -
  have r: "read_ok working" and w: "write_ok working"
    by (simp_all add: working_def)
  have s: "full_disk (get_user_file_path (sub alice)) = Some full_file"
    by (simp add: full_disk_def alice_def)
  have n: "length (uf_suggestions full_file) = 100"
    by (simp add: full_file_def)
  have t: "tl (uf_suggestions full_file) = map old_record [1..<100]"
  proof -
    have "[0..<100] = 0 # [1..<100]"
      by (subst upt_conv_Cons) simp_all
    then show ?thesis
      by (simp add: full_file_def)
  qed
  note inst = C3_cap_and_eviction [OF full_disk_capped,
      where calls = "[(working, alice, payload), (working, alice, payload)]"
        and env = working and user = alice and stored = full_file
        and suggestion_data = payload]
  from inst r w s n
  have e: "local_storage_save_price_suggestion working full_disk alice payload
     = (sg_id (new_suggestion working 100 alice payload),
        full_disk(get_user_file_path (sub alice) \<mapsto>
          \<lparr>uf_user_id = sub alice,
           uf_suggestions = tl (uf_suggestions full_file)
                            @ [new_suggestion working 100 alice payload],
           uf_last_updated = last_updated_iso working\<rparr>))"
    by blast
  have "\<exists>f. save_all [(working, alice, payload), (working, alice, payload)] full_disk
             (get_user_file_path (sub alice)) = Some f"
    by (simp add: e save_user_data_def local_storage_save_price_suggestion_def Let_def w)
  with inst have c: "\<exists>f. save_all [(working, alice, payload), (working, alice, payload)] full_disk
             (get_user_file_path (sub alice)) = Some f \<and> length (uf_suggestions f) \<le> 100"
    by blast
  from r w s n c show ?thesis
    by (simp add: e t)
qed

section \<open>Saving through the fallback store\<close>

text \<open>
Sorting newest first rearranges the records and loses none.
\<close>

lemma set_sort_newest_first: "set (sort_newest_first xs) = set xs"
  by (simp add: sort_newest_first_def)

text \<open>
It keeps their number.
\<close>

lemma length_sort_newest_first: "length (sort_newest_first xs) = length xs"
  by (simp add: sort_newest_first_def)

text \<open>
A slice from 0 with a limit that covers the list is the whole list.
\<close>

lemma py_slice_whole:
  assumes "int (length xs) \<le> limit"
  shows "py_slice xs 0 (0 + limit) = xs"
  using assms by (simp add: py_slice_def slice_index_def Let_def)

text \<open>
The record appended last survives the cut to the last hundred.
\<close>

lemma last_100_keeps_new: "x \<in> set (last_100 (xs @ [x]))"
  by (simp add: last_100_def)

text \<open>
The cut leaves at most a hundred records.
\<close>

lemma length_last_100: "length (last_100 xs) \<le> 100"
  by (simp add: last_100_def)

text \<open>
What a successful write stored is what the next successful read loads.
\<close>

lemma load_after_save:
  assumes "write_ok env" and "read_ok env'"
  shows "load_user_data env'
           (snd (local_storage_save_price_suggestion env files user suggestion_data)) (sub user)
     = last_100 (load_user_data env files (sub user)
                 @ [new_suggestion env (length (load_user_data env files (sub user))) user
                      suggestion_data])"
  using assms
  by (simp add: local_storage_save_price_suggestion_def save_user_data_def
      load_user_data_def Let_def)

text \<open>
A listing with skip 0 and a limit of at least 100 shows every record of a capped file.
\<close>

lemma listing_whole:
  assumes "length xs \<le> 100" and "100 \<le> limit"
  shows "set (py_slice (sort_newest_first xs) 0 (0 + limit)) = set xs"
proof -
  from assms have "int (length (sort_newest_first xs)) \<le> limit"
    by (simp add: length_sort_newest_first)
  then have "py_slice (sort_newest_first xs) 0 (0 + limit) = sort_newest_first xs"
    by (rule py_slice_whole)
  then show ?thesis
    by (simp add: set_sort_newest_first)
qed

text \<open>
The record a save built is in the local listing that follows it.
\<close>

lemma saved_record_is_listed:
  assumes "write_ok env" and "read_ok env'" and "100 \<le> limit"
  shows "new_suggestion env (length (load_user_data env files (sub user))) user suggestion_data
     \<in> set (local_storage_get_user_suggestions env'
              (snd (local_storage_save_price_suggestion env files user suggestion_data))
              user limit 0)"
  unfolding local_storage_get_user_suggestions_def Let_def
    load_after_save [OF assms(1,2)]
    listing_whole [OF length_last_100 assms(3)]
  by (rule last_100_keeps_new)

text \<open>
  When the primary store takes the document, the id is the primary's and the files are
  left alone.
\<close>

lemma primary_save_leaves_disk:
  assumes "database self = Some collection" and "insert_one = Inserted inserted_id"
  shows "db_service_save_price_suggestion env insert_one self files user suggestion_data
     = (inserted_id,
        self\<lparr>database := Some (collection @ [document env inserted_id user suggestion_data])\<rparr>,
        files)"
  using assms by (simp add: db_service_save_price_suggestion_def after_insert_def)

text \<open>
  Without a connection, or when \<open>insert_one\<close> raises and has stored nothing, the save is
  the local save and the primary store is left alone.
\<close>

lemma fallback_save_is_local:
  assumes "database self = None \<or> insert_one = InsertRaised e None"
  shows "db_service_save_price_suggestion env insert_one self files user suggestion_data
       = (fst (local_storage_save_price_suggestion env files user suggestion_data), self,
          snd (local_storage_save_price_suggestion env files user suggestion_data))"
proof (cases "database self")
  case None
  then show ?thesis
    by (simp add: db_service_save_price_suggestion_def split: prod.splits)
next
  case (Some collection)
  with assms have i: "insert_one = InsertRaised e None"
    by simp
  from Some have "self\<lparr>database := Some collection\<rparr> = self"
    by simp
  with Some i show ?thesis
    by (simp add: db_service_save_price_suggestion_def after_insert_def split: prod.splits)
qed

text \<open>
  When \<open>insert_one\<close> raises after the document was stored, the save is the local save
  as well, and the record is then in both stores.
\<close>

lemma late_failure_stores_twice:
  assumes "database self = Some collection"
    and "insert_one = InsertRaised e (Some inserted_id)"
  shows "db_service_save_price_suggestion env insert_one self files user suggestion_data
       = (fst (local_storage_save_price_suggestion env files user suggestion_data),
          self\<lparr>database :=
            Some (collection @ [document env inserted_id user suggestion_data])\<rparr>,
          snd (local_storage_save_price_suggestion env files user suggestion_data))"
  using assms
  by (simp add: db_service_save_price_suggestion_def after_insert_def split: prod.splits)

text \<open>
  Without a connection, or when the query raises, the listing is the local listing.
\<close>

lemma fallback_listing_is_local:
  assumes "database self = None \<or> found = Inl e"
  shows "db_service_get_user_suggestions env found self files user limit skip
       = local_storage_get_user_suggestions env files user limit skip"
  using assms
  by (cases "database self") (auto simp: db_service_get_user_suggestions_def)

text \<open>
The id the local save returns is the id of the record it built.
\<close>

lemma local_id_is_new_id:
  "fst (local_storage_save_price_suggestion env files user suggestion_data)
     = sg_id (new_suggestion env (length (load_user_data env files (sub user))) user
                suggestion_data)"
  by (simp add: local_storage_save_price_suggestion_def Let_def)

text \<open>
  C4, as the code has it: when there is no connection, or \<open>insert_one\<close> raises and has
  stored nothing, \<open>save_price_suggestion\<close> returns the id the local file store generated
  and leaves the primary store as it was; and when the user's file could be written
  during the save and can be read during the listing, the fallback listing path (no
  connection, or a query that raises), read with skip 0 and a limit of at least 100,
  contains a record with that id, the user's id, and the suggested price and reasoning
  of the payload. The record is then in the file store alone.
\<close>

theorem C4_fallback_save:
  assumes "database self = None \<or> insert_one = InsertRaised e None"
    and "write_ok env"
    and "read_ok env'"
    and "database self' = None \<or> found = Inl e'"
    and "100 \<le> limit"
  shows "db_service_save_price_suggestion env insert_one self files user suggestion_data
       = (fst (local_storage_save_price_suggestion env files user suggestion_data), self,
          snd (local_storage_save_price_suggestion env files user suggestion_data))
     \<and> (\<exists>record \<in> set (db_service_get_user_suggestions env' found self'
              (snd (snd (db_service_save_price_suggestion env insert_one self files user
                           suggestion_data)))
              user limit 0).
          sg_id record
            = fst (db_service_save_price_suggestion env insert_one self files user
                     suggestion_data)
          \<and> sg_user_id record = sub user
          \<and> sg_suggested_price record = dict_get suggestion_data ''suggested_price'' JNull
          \<and> sg_reasoning record = dict_get suggestion_data ''reasoning'' JNull)"
proof -
  let ?new = "new_suggestion env (length (load_user_data env files (sub user))) user
                suggestion_data"
  note s = fallback_save_is_local [OF assms(1)]
  have m: "?new \<in> set (db_service_get_user_suggestions env' found self'
              (snd (local_storage_save_price_suggestion env files user suggestion_data))
              user limit 0)"
    unfolding fallback_listing_is_local [OF assms(4)]
    using assms(2,3,5) by (rule saved_record_is_listed)
  have f: "sg_id ?new = fst (local_storage_save_price_suggestion env files user suggestion_data)
      \<and> sg_user_id ?new = sub user
      \<and> sg_suggested_price ?new = dict_get suggestion_data ''suggested_price'' JNull
      \<and> sg_reasoning ?new = dict_get suggestion_data ''reasoning'' JNull"
    by (simp add: local_id_is_new_id) (simp add: new_suggestion_def)
  show ?thesis
    unfolding s snd_conv fst_conv
    using m f by blast
qed

text \<open>
The file of the example user.
\<close>

lemma alice_path: "get_user_file_path ''auth0|alice'' = ''local_data/user_auth0alice.json''"
  by (simp add: get_user_file_path_def storage_dir_def isalnum_def is_lower_def is_upper_def
      is_digit_def less_eq_char_def)

text \<open>
The id of a first save at clock 1700000000.
\<close>

lemma first_local_id:
  "''local_'' @ str_nat 0 @ ''_'' @ str_int 1700000000 = ''local_0_1700000000''"
  by (simp add: str_int_def)

text \<open>
A first save into the empty store, evaluated.
\<close>

lemma first_local_save:
  "local_storage_save_price_suggestion working (\<lambda>path. None) alice payload
      = (''local_0_1700000000'',
         (\<lambda>path. None)(''local_data/user_auth0alice.json'' \<mapsto>
             \<lparr>uf_user_id = ''auth0|alice'',
              uf_suggestions = [new_suggestion working 0 alice payload],
              uf_last_updated = ''2023-11-14T22:13:20.000456''\<rparr>))"
proof -
  have empty: "load_user_data working (\<lambda>path. None) (sub alice) = []"
    by (simp add: load_user_data_def)
  have i: "sg_id (new_suggestion working 0 alice payload) = ''local_0_1700000000''"
    unfolding new_suggestion_def suggestion.simps
    using first_local_id by (simp add: working_def)
  have w: "write_ok working"
    by (simp add: working_def)
  have u: "sub alice = ''auth0|alice''"
    by (simp add: alice_def)
  have t: "last_updated_iso working = ''2023-11-14T22:13:20.000456''"
    by (simp add: working_def)
  have k: "last_100 [x] = [x]" for x :: suggestion
    by (simp add: last_100_def)
  have "local_storage_save_price_suggestion working (\<lambda>path. None) alice payload
      = (sg_id (new_suggestion working 0 alice payload),
         save_user_data working (\<lambda>path. None) (sub alice)
           [new_suggestion working 0 alice payload])"
    unfolding local_storage_save_price_suggestion_def Let_def empty append_Nil list.size k
    by (rule refl)
  also have "save_user_data working (\<lambda>path. None) (sub alice)
           [new_suggestion working 0 alice payload]
     = (\<lambda>path. None)(''local_data/user_auth0alice.json'' \<mapsto>
             \<lparr>uf_user_id = ''auth0|alice'',
              uf_suggestions = [new_suggestion working 0 alice payload],
              uf_last_updated = ''2023-11-14T22:13:20.000456''\<rparr>)"
    unfolding save_user_data_def u alice_path t using w by simp
  finally show ?thesis
    unfolding i .
qed

text \<open>
  C4 at a first save into a connected store whose insert is refused: the id is
  local_0_1700000000, the primary store is untouched, and the listing, whose query is
  refused as well, shows the record with the payload's price and reasoning.
\<close>

theorem C4_fallback_save_witness:
  "refused = InsertRaised (Exn LibraryError ''connection refused'') None
   \<and> write_ok working \<and> read_ok later
   \<and> fst (db_service_save_price_suggestion working refused connected (\<lambda>path. None)
            alice payload) = ''local_0_1700000000''
   \<and> fst (snd (db_service_save_price_suggestion working refused connected
                 (\<lambda>path. None) alice payload)) = connected
   \<and> (\<exists>saved \<in> set (db_service_get_user_suggestions later
              (Inl (Exn LibraryError ''connection refused'')) connected
              (snd (snd (db_service_save_price_suggestion working refused connected
                           (\<lambda>path. None) alice payload)))
              alice 100 0).
          sg_id saved = ''local_0_1700000000''
          \<and> sg_user_id saved = ''auth0|alice''
          \<and> sg_suggested_price saved = JFloat 14
          \<and> sg_reasoning saved = JStr ''Emergency fallback'')"
proof -
  have n: "refused = InsertRaised (Exn LibraryError ''connection refused'') None"
    by (simp add: refused_def)
  then have d: "database connected = None
                \<or> refused = InsertRaised (Exn LibraryError ''connection refused'') None"
    by (rule disjI2)
  have "Inl (Exn LibraryError ''connection refused'')
          = (Inl (Exn LibraryError ''connection refused'') :: exn + suggestion list)"
    by (rule refl)
  then have d': "database connected = None
                 \<or> Inl (Exn LibraryError ''connection refused'')
                     = (Inl (Exn LibraryError ''connection refused'') :: exn + suggestion list)"
    by (rule disjI2)
  have w: "write_ok working" and r: "read_ok later"
    by (simp_all add: working_def later_def)
  have l: "(100::int) \<le> 100"
    by simp
  note inst = C4_fallback_save [where self = connected and insert_one = refused
      and env = working and env' = later and self' = connected
      and found = "Inl (Exn LibraryError ''connection refused'')"
      and limit = 100 and files = "\<lambda>path. None" and user = alice
      and suggestion_data = payload and e = "Exn LibraryError ''connection refused''"
      and e' = "Exn LibraryError ''connection refused''", OF d w r d' l]
  have f: "fst (local_storage_save_price_suggestion working (\<lambda>path. None) alice payload)
             = ''local_0_1700000000''"
    unfolding first_local_save by (rule fst_conv)
  have v: "sub alice = ''auth0|alice''"
    "dict_get payload ''suggested_price'' JNull = JFloat 14"
    "dict_get payload ''reasoning'' JNull = JStr ''Emergency fallback''"
    by (simp_all add: alice_def payload_def dict_get_def)
  from inst have s: "db_service_save_price_suggestion working refused connected
        (\<lambda>path. None) alice payload
       = (fst (local_storage_save_price_suggestion working (\<lambda>path. None) alice payload),
          connected,
          snd (local_storage_save_price_suggestion working (\<lambda>path. None) alice payload))"
    by (rule conjunct1)
  have a1: "fst (db_service_save_price_suggestion working refused connected (\<lambda>path. None)
            alice payload) = ''local_0_1700000000''"
    unfolding s fst_conv by (rule f)
  have a2: "fst (snd (db_service_save_price_suggestion working refused connected
                 (\<lambda>path. None) alice payload)) = connected"
    unfolding s snd_conv fst_conv by (rule refl)
  from inst have b: "\<exists>saved \<in> set (db_service_get_user_suggestions later
              (Inl (Exn LibraryError ''connection refused'')) connected
              (snd (snd (db_service_save_price_suggestion working refused connected
                           (\<lambda>path. None) alice payload)))
              alice 100 0).
          sg_id saved = ''local_0_1700000000''
          \<and> sg_user_id saved = ''auth0|alice''
          \<and> sg_suggested_price saved = JFloat 14
          \<and> sg_reasoning saved = JStr ''Emergency fallback''"
    unfolding a1 v by (rule conjunct2)
  from n w r a1 a2 b show ?thesis
    by (intro conjI)
qed

text \<open>
The same save at a moment when the file cannot be written: nothing is loaded, the id is
that of a first record, and the files are left as they were.
\<close>

lemma unwritable_local_save:
  "local_storage_save_price_suggestion unwritable (\<lambda>path. None) alice payload
     = (''local_0_1700000000'', (\<lambda>path. None))"
proof -
  have empty: "load_user_data unwritable (\<lambda>path. None) (sub alice) = []"
    by (simp add: load_user_data_def)
  have i: "sg_id (new_suggestion unwritable 0 alice payload) = ''local_0_1700000000''"
    unfolding new_suggestion_def suggestion.simps
    using first_local_id by (simp add: unwritable_def)
  have w: "\<not> write_ok unwritable"
    by (simp add: unwritable_def)
  have "local_storage_save_price_suggestion unwritable (\<lambda>path. None) alice payload
      = (sg_id (new_suggestion unwritable 0 alice payload),
         save_user_data unwritable (\<lambda>path. None) (sub alice)
           (last_100 [new_suggestion unwritable 0 alice payload]))"
    unfolding local_storage_save_price_suggestion_def Let_def empty append_Nil list.size
    by (rule refl)
  also have "save_user_data unwritable (\<lambda>path. None) (sub alice)
           (last_100 [new_suggestion unwritable 0 alice payload]) = (\<lambda>path. None)"
    unfolding save_user_data_def using w by simp
  finally show ?thesis
    unfolding i .
qed

text \<open>
  C4 as it is worded fails when the user's file cannot be written, which
  \<open>save_user_data\<close> catches and logs: without a connection the save still returns the
  id local_0_1700000000, yet the primary store and the files are as they were, and the
  fallback listing that follows is empty. The record is in no store.
\<close>

theorem C4_unwritable_counterexample:
  "database no_connection = None
   \<and> db_service_save_price_suggestion unwritable inserted no_connection (\<lambda>path. None)
        alice payload
      = (''local_0_1700000000'', no_connection, (\<lambda>path. None))
   \<and> db_service_get_user_suggestions later (Inr []) no_connection
        (snd (snd (db_service_save_price_suggestion unwritable inserted no_connection
                     (\<lambda>path. None) alice payload)))
        alice 100 0 = []"
proof -
  have n: "database no_connection = None"
    by (simp add: no_connection_def)
  have s: "db_service_save_price_suggestion unwritable inserted no_connection (\<lambda>path. None)
        alice payload
      = (''local_0_1700000000'', no_connection, (\<lambda>path. None))"
    unfolding db_service_save_price_suggestion_def n option.case unwritable_local_save
    by simp
  have l: "db_service_get_user_suggestions later (Inr []) no_connection
        (snd (snd (db_service_save_price_suggestion unwritable inserted no_connection
                     (\<lambda>path. None) alice payload)))
        alice 100 0 = []"
    unfolding s snd_conv
    by (simp add: db_service_get_user_suggestions_def n
        local_storage_get_user_suggestions_def load_user_data_def sort_newest_first_def
        py_slice_def)
  from n s l show ?thesis
    by (intro conjI)
qed

section \<open>The CSV batch\<close>

text \<open>
  A pass of the loop whose label takes \<open>+ 1\<close> appends the entry of the row under that
  number: a failed entry exactly when building the request raised, since the
  recommendation engine itself never raises.
\<close>

lemma process_row_numbered:
  assumes "index_plus_one index = Inr number"
  shows "process_row loads build float_of_str str_of_num replies cols position index row
     = Inr (row_entry loads build float_of_str str_of_num replies cols position number row)"
  using assms
  by (simp add: process_row_def row_body_def row_handler_def row_entry_def then_do_def Let_def
      split: sum.splits)

text \<open>
  A pass whose label is a text raises: in the body of the \<open>try\<close> when the request was
  built, in the handler when it was not, and in the handler again in either case.
\<close>

lemma text_label_raises:
  "process_row loads build float_of_str str_of_num replies cols position (TextLabel t) row
     = Inl (Exn TypeError ''can only concatenate str (not \"int\") to str'')"
  by (simp add: process_row_def row_body_def row_handler_def then_do_def Let_def
      index_plus_one_def split: sum.splits)

text \<open>
The loop ends at the first row whose label is a text, whatever the rows hold.
\<close>

lemma text_label_ends_loop:
  "process_rows loads build float_of_str str_of_num replies cols position
       ((TextLabel t, row) # rest) (resp, to_save)
     = Inl (Exn TypeError ''can only concatenate str (not \"int\") to str'')"
  by (simp add: text_label_raises)

text \<open>
  C5 fails on the code where the data rows of the file have one field more than its
  header. Of the file with the header \<open>cost_price,inventory_level,season,category\<close> and
  the rows \<open>A1,10.0,high,summer,skincare\<close> and \<open>A2,20.0,low,winter,toys\<close>,
  \<open>read_csv\<close> makes a frame with the four required columns and two rows labelled A1 and
  A2. Both requests can be built, and the claim reports two products, no failure and two
  entries numbered 1 and 2. The code evaluates \<open>index + 1\<close> on the label A1, which raises
  \<open>TypeError\<close> in the body of the \<open>try\<close> and again in its handler; the exception leaves
  the loop and the upload is answered with status 500.
\<close>

theorem C5_upload_aborts_on_text_label:
  "suffix ''.csv'' ''products.csv''
   \<and> filter (\<lambda>col. col \<notin> set (df_columns labelled_df)) required_columns = []
   \<and> length (df_rows labelled_df) = 2
   \<and> filter (\<lambda>p. isl (request_of_row simple_float no_print (df_columns labelled_df) (snd p)))
        (df_rows labelled_df) = []
   \<and> upload_csv reject_all build_none simple_float no_print (\<lambda>k. unavailable)
        ''products.csv'' labelled_df
      = Inl (HTTPException 500
               (''Error processing CSV file: ''
                @ ''can only concatenate str (not \"int\") to str''))"
proof -
  have a: "suffix ''.csv'' ''products.csv''"
    by (simp add: suffix_def)
  have b: "filter (\<lambda>col. col \<notin> set (df_columns labelled_df)) required_columns = []"
    by (simp add: required_columns_def labelled_df_def)
  have n: "length (df_rows labelled_df) = 2"
    by (simp add: labelled_df_def)
  have k: "filter (\<lambda>p. isl (request_of_row simple_float no_print (df_columns labelled_df)
                               (snd p)))
             (df_rows labelled_df) = []"
    by (simp add: labelled_df_def request_of_row_def then_do_def row_item_def row_get_def
        cell_float_def cell_str_def validate_request_def)
  have r: "df_rows labelled_df
      = (TextLabel ''A1'', [Num 10, Text ''high'', Text ''summer'', Text ''skincare''])
        # [(TextLabel ''A2'', [Num 20, Text ''low'', Text ''winter'', Text ''toys''])]"
    by (simp add: labelled_df_def)
  have u: "upload_csv reject_all build_none simple_float no_print (\<lambda>k. unavailable)
        ''products.csv'' labelled_df
      = Inl (HTTPException 500
               (''Error processing CSV file: ''
                @ ''can only concatenate str (not \"int\") to str''))"
    unfolding upload_csv_def Let_def b r text_label_ends_loop
    using a by simp
  from a b n k u show ?thesis
    by (intro conjI)
qed

text \<open>
  A label that is a number is not the position of the row either: the entry of a row
  labelled 101 carries the number 102.
\<close>

lemma number_follows_label:
  "process_row loads build float_of_str str_of_num replies cols position (IntLabel 101) row
     = Inr (row_entry loads build float_of_str str_of_num replies cols position (IntLabel 102)
              row)"
  by (rule process_row_numbered) (simp add: index_plus_one_def)

text \<open>
  What does hold. When every data row has as many fields as the header, the labels are
  the positions, and the claim holds: the lemmas below follow the loop over such rows.
  The entry of a row is marked failed exactly when building its request raised, and it
  is then left out of \<open>suggestions_to_save\<close>.
\<close>

lemma row_entry_failed_iff:
  "(snd (row_entry loads build float_of_str str_of_num replies cols position number row) = None)
     = isl (request_of_row float_of_str str_of_num cols row)"
  by (simp add: row_entry_def Let_def split: sum.splits)

text \<open>
The entry carries the number it was given.
\<close>

lemma row_entry_number:
  "row_number (fst (row_entry loads build float_of_str str_of_num replies cols position number
                      row))
     = number"
  by (simp add: row_entry_def Let_def split: sum.splits)

text \<open>
An entry is marked failed exactly when building the request raised.
\<close>

lemma row_entry_status:
  "(status (fst (row_entry loads build float_of_str str_of_num replies cols position number row))
      = ''failed'')
     = isl (request_of_row float_of_str str_of_num cols row)"
  by (simp add: row_entry_def status_def Let_def split: sum.splits)

text \<open>
The labels from a position on, one row further.
\<close>

lemma range_index_Suc:
  "range_index position (Suc n) = IntLabel (int position) # range_index (position + 1) n"
proof -
  have "position < position + Suc n"
    by simp
  then have "[position..<position + Suc n] = position # [Suc position..<position + Suc n]"
    by (rule upt_conv_Cons)
  then show ?thesis
    by (simp add: range_index_def)
qed

text \<open>
The positions from a position on, one row further.
\<close>

lemma positions_Suc:
  "[position..<position + Suc n] = position # [position + 1..<position + 1 + n]"
proof -
  have "position < position + Suc n"
    by simp
  then have "[position..<position + Suc n] = position # [Suc position..<position + Suc n]"
    by (rule upt_conv_Cons)
  then show ?thesis
    by simp
qed

text \<open>
  Over rows labelled by their positions the loop runs to its end: it appends one entry
  per row, in order, each computed from its own row and numbered by its position plus
  one, adds to the failure counter the number of rows whose request cannot be built and
  to the success counter the number of the others, and leaves \<open>total_products\<close> alone.
\<close>

lemma process_rows_range:
  "\<exists>resp' to_save'.
     process_rows loads build float_of_str str_of_num replies cols position
         (zip (range_index position (length cells)) cells) (resp, to_save)
       = Inr (resp', to_save')
     \<and> results resp'
         = results resp
           @ map (\<lambda>(k, row). fst (row_entry loads build float_of_str str_of_num replies cols k
                                      (IntLabel (int k + 1)) row))
               (zip [position..<position + length cells] cells)
     \<and> failed_predictions resp'
         = failed_predictions resp
           + length (filter (\<lambda>row. isl (request_of_row float_of_str str_of_num cols row)) cells)
     \<and> successful_predictions resp'
         = successful_predictions resp
           + length (filter (\<lambda>row. \<not> isl (request_of_row float_of_str str_of_num cols row))
                       cells)
     \<and> total_products resp' = total_products resp"
proof (induction cells arbitrary: position resp to_save)
  case Nil
  then show ?case
    by (simp add: range_index_def)
next
  case (Cons row rest)
  let ?entry = "row_entry loads build float_of_str str_of_num replies cols position
                  (IntLabel (int position + 1)) row"
  have p: "process_row loads build float_of_str str_of_num replies cols position
             (IntLabel (int position)) row = Inr ?entry"
    by (rule process_row_numbered) (simp add: index_plus_one_def)
  obtain result saved where e: "?entry = (result, saved)"
    by (cases ?entry)
  from e have fe: "fst ?entry = result"
    by simp
  have pz: "zip [position..<position + length (row # rest)] (row # rest)
      = (position, row) # zip [position + 1..<position + 1 + length rest] rest"
    unfolding length_Cons positions_Suc by (rule zip_Cons_Cons)
  from e row_entry_failed_iff
    [of loads build float_of_str str_of_num replies cols position "IntLabel (int position + 1)"
       row]
  have fl: "(saved = None) = isl (request_of_row float_of_str str_of_num cols row)"
    by simp
  show ?case
  proof (cases saved)
    case None
    let ?resp = "resp\<lparr>results := results resp @ [result],
                       failed_predictions := failed_predictions resp + 1\<rparr>"
    from Cons.IH [of "position + 1" ?resp to_save]
    obtain resp' to_save' where
      ih: "process_rows loads build float_of_str str_of_num replies cols (position + 1)
             (zip (range_index (position + 1) (length rest)) rest) (?resp, to_save)
           = Inr (resp', to_save')"
      and r: "results resp'
         = results ?resp
           @ map (\<lambda>(k, row). fst (row_entry loads build float_of_str str_of_num replies cols k
                                      (IntLabel (int k + 1)) row))
               (zip [position + 1..<position + 1 + length rest] rest)"
      and f: "failed_predictions resp'
         = failed_predictions ?resp
           + length (filter (\<lambda>row. isl (request_of_row float_of_str str_of_num cols row)) rest)"
      and s: "successful_predictions resp'
         = successful_predictions ?resp
           + length (filter (\<lambda>row. \<not> isl (request_of_row float_of_str str_of_num cols row))
                       rest)"
      and t: "total_products resp' = total_products ?resp"
      by blast
    from fl None have i: "isl (request_of_row float_of_str str_of_num cols row)"
      by simp
    have step: "process_rows loads build float_of_str str_of_num replies cols position
         (zip (range_index position (length (row # rest))) (row # rest)) (resp, to_save)
       = Inr (resp', to_save')"
      using ih by (simp add: range_index_Suc p e None)
    from r fe have r': "results resp'
         = results resp
           @ map (\<lambda>(k, row). fst (row_entry loads build float_of_str str_of_num replies cols k
                                      (IntLabel (int k + 1)) row))
               (zip [position..<position + length (row # rest)] (row # rest))"
      unfolding pz by simp
    from f i have f': "failed_predictions resp'
         = failed_predictions resp
           + length (filter (\<lambda>row. isl (request_of_row float_of_str str_of_num cols row))
                       (row # rest))"
      by simp
    from s i have s': "successful_predictions resp'
         = successful_predictions resp
           + length (filter (\<lambda>row. \<not> isl (request_of_row float_of_str str_of_num cols row))
                       (row # rest))"
      by simp
    from t have t': "total_products resp' = total_products resp"
      by simp
    from step r' f' s' t' show ?thesis
      by blast
  next
    case (Some kept)
    let ?resp = "resp\<lparr>results := results resp @ [result],
                       successful_predictions := successful_predictions resp + 1\<rparr>"
    from Cons.IH [of "position + 1" ?resp "to_save @ [kept]"]
    obtain resp' to_save' where
      ih: "process_rows loads build float_of_str str_of_num replies cols (position + 1)
             (zip (range_index (position + 1) (length rest)) rest) (?resp, to_save @ [kept])
           = Inr (resp', to_save')"
      and r: "results resp'
         = results ?resp
           @ map (\<lambda>(k, row). fst (row_entry loads build float_of_str str_of_num replies cols k
                                      (IntLabel (int k + 1)) row))
               (zip [position + 1..<position + 1 + length rest] rest)"
      and f: "failed_predictions resp'
         = failed_predictions ?resp
           + length (filter (\<lambda>row. isl (request_of_row float_of_str str_of_num cols row)) rest)"
      and s: "successful_predictions resp'
         = successful_predictions ?resp
           + length (filter (\<lambda>row. \<not> isl (request_of_row float_of_str str_of_num cols row))
                       rest)"
      and t: "total_products resp' = total_products ?resp"
      by blast
    from fl Some have i: "\<not> isl (request_of_row float_of_str str_of_num cols row)"
      by simp
    have step: "process_rows loads build float_of_str str_of_num replies cols position
         (zip (range_index position (length (row # rest))) (row # rest)) (resp, to_save)
       = Inr (resp', to_save')"
      using ih by (simp add: range_index_Suc p e Some)
    from r fe have r': "results resp'
         = results resp
           @ map (\<lambda>(k, row). fst (row_entry loads build float_of_str str_of_num replies cols k
                                      (IntLabel (int k + 1)) row))
               (zip [position..<position + length (row # rest)] (row # rest))"
      unfolding pz by simp
    from f i have f': "failed_predictions resp'
         = failed_predictions resp
           + length (filter (\<lambda>row. isl (request_of_row float_of_str str_of_num cols row))
                       (row # rest))"
      by simp
    from s i have s': "successful_predictions resp'
         = successful_predictions resp
           + length (filter (\<lambda>row. \<not> isl (request_of_row float_of_str str_of_num cols row))
                       (row # rest))"
      by simp
    from t have t': "total_products resp' = total_products resp"
      by simp
    from step r' f' s' t' show ?thesis
      by blast
  qed
qed

text \<open>
Counting the complement.
\<close>

lemma count_not_failed:
  "length (filter (\<lambda>x. \<not> P x) xs) = length xs - length (filter P xs)"
  using sum_length_filter_compl [of P xs] by simp

text \<open>
  With a file name ending in .csv and the four required columns present, the handler
  returns what the loop leaves, or status 500 when the loop raised.
\<close>

lemma upload_runs_the_loop:
  assumes "suffix ''.csv'' filename"
    and "filter (\<lambda>col. col \<notin> set (df_columns df)) required_columns = []"
  shows "upload_csv loads build float_of_str str_of_num replies filename df
     = (case process_rows loads build float_of_str str_of_num replies (df_columns df) 0
               (df_rows df)
               (\<lparr>total_products = length (df_rows df), successful_predictions = 0,
                 failed_predictions = 0, results = []\<rparr>, []) of
          Inl e \<Rightarrow> Inl (HTTPException 500 (''Error processing CSV file: '' @ exn_msg e))
        | Inr (resp, suggestions_to_save) \<Rightarrow> Inr resp)"
  using assms by (simp add: upload_csv_def Let_def)

text \<open>
  The claim on frames whose rows are labelled by their positions: for an upload with the
  required columns and N data rows, of which K are rows whose request cannot be built (a
  cell that does not parse, or a price that fails validation), the response has
  total_products = N, failed_predictions = K, successful_predictions = N - K and N result
  entries numbered 1 to N in row order; entry k is computed from row k alone and is
  marked failed exactly when row k is one of the K.
\<close>

lemma batch_counts_on_range_index:
  assumes "suffix ''.csv'' filename"
    and "filter (\<lambda>col. col \<notin> set (df_columns df)) required_columns = []"
    and "map fst (df_rows df) = range_index 0 (length (df_rows df))"
  shows "\<exists>resp. upload_csv loads build float_of_str str_of_num replies filename df = Inr resp
     \<and> total_products resp = length (df_rows df)
     \<and> failed_predictions resp
         = length (filter (\<lambda>row. isl (request_of_row float_of_str str_of_num (df_columns df) row))
                     (map snd (df_rows df)))
     \<and> successful_predictions resp
         = length (df_rows df)
           - length (filter (\<lambda>row. isl (request_of_row float_of_str str_of_num (df_columns df)
                                         row))
                       (map snd (df_rows df)))
     \<and> length (results resp) = length (df_rows df)
     \<and> map row_number (results resp) = map (\<lambda>k. IntLabel (int k + 1)) [0..<length (df_rows df)]
     \<and> (\<forall>k < length (df_rows df).
           results resp ! k
             = fst (row_entry loads build float_of_str str_of_num replies (df_columns df) k
                      (IntLabel (int k + 1)) (snd (df_rows df ! k)))
           \<and> (status (results resp ! k) = ''failed'')
               = isl (request_of_row float_of_str str_of_num (df_columns df)
                        (snd (df_rows df ! k))))"
proof -
  let ?cells = "map snd (df_rows df)"
  let ?start = "(\<lparr>total_products = length (df_rows df), successful_predictions = 0,
                  failed_predictions = 0, results = []\<rparr>, [])"
  let ?entry = "\<lambda>(k, row). fst (row_entry loads build float_of_str str_of_num replies
                                   (df_columns df) k (IntLabel (int k + 1)) row)"
  have z: "zip (range_index 0 (length ?cells)) ?cells = df_rows df"
    using assms(3) zip_map_fst_snd [of "df_rows df"] by simp
  from process_rows_range [of loads build float_of_str str_of_num replies "df_columns df" 0
      ?cells "fst ?start" "snd ?start"]
  obtain resp to_save where
    p: "process_rows loads build float_of_str str_of_num replies (df_columns df) 0 (df_rows df)
          ?start = Inr (resp, to_save)"
    and r: "results resp = map ?entry (zip [0..<length ?cells] ?cells)"
    and f: "failed_predictions resp
              = length (filter (\<lambda>row. isl (request_of_row float_of_str str_of_num (df_columns df)
                                             row)) ?cells)"
    and s: "successful_predictions resp
              = length (filter (\<lambda>row. \<not> isl (request_of_row float_of_str str_of_num
                                               (df_columns df) row)) ?cells)"
    and t: "total_products resp = length (df_rows df)"
    unfolding z by auto
  have u: "upload_csv loads build float_of_str str_of_num replies filename df = Inr resp"
    unfolding upload_runs_the_loop [OF assms(1,2)] p by simp
  from s have s': "successful_predictions resp
      = length (df_rows df)
        - length (filter (\<lambda>row. isl (request_of_row float_of_str str_of_num (df_columns df) row))
                    ?cells)"
    by (simp add: count_not_failed)
  have n: "length (results resp) = length (df_rows df)"
    by (simp add: r)
  have e: "results resp ! k
       = fst (row_entry loads build float_of_str str_of_num replies (df_columns df) k
                (IntLabel (int k + 1)) (snd (df_rows df ! k)))"
    if "k < length (df_rows df)" for k
    using that by (simp add: r)
  have m: "map row_number (results resp)
             = map (\<lambda>k. IntLabel (int k + 1)) [0..<length (df_rows df)]"
  proof (rule nth_equalityI)
    show "length (map row_number (results resp))
            = length (map (\<lambda>k. IntLabel (int k + 1)) [0..<length (df_rows df)])"
      by (simp add: n)
  next
    fix k
    assume "k < length (map row_number (results resp))"
    then have "k < length (df_rows df)"
      by (simp add: n)
    then show "map row_number (results resp) ! k
                 = map (\<lambda>k. IntLabel (int k + 1)) [0..<length (df_rows df)] ! k"
      by (simp add: n e row_entry_number)
  qed
  have st: "(status (results resp ! k) = ''failed'')
       = isl (request_of_row float_of_str str_of_num (df_columns df) (snd (df_rows df ! k)))"
    if "k < length (df_rows df)" for k
    unfolding e [OF that] by (rule row_entry_status)
  from u t f s' n m e st show ?thesis
    by blast
qed

text \<open>
  At a file of three rows, each with as many fields as the header, whose second row has
  the cost \<open>abc\<close>: three products, one failure, two successes, entries numbered 1, 2, 3.
\<close>

lemma batch_counts_example:
  "\<exists>resp. upload_csv reject_all build_none simple_float no_print (\<lambda>k. unavailable)
             ''products.csv'' example_df = Inr resp
      \<and> total_products resp = 3
      \<and> failed_predictions resp = 1
      \<and> successful_predictions resp = 2
      \<and> length (results resp) = 3
      \<and> map row_number (results resp) = [IntLabel 1, IntLabel 2, IntLabel 3]"
proof -
  have a: "suffix ''.csv'' ''products.csv''"
    by (simp add: suffix_def)
  have b: "filter (\<lambda>col. col \<notin> set (df_columns example_df)) required_columns = []"
    by (simp add: required_columns_def example_df_def)
  have n: "length (df_rows example_df) = 3"
    by (simp add: example_df_def)
  have c: "map fst (df_rows example_df) = range_index 0 (length (df_rows example_df))"
    unfolding n by (simp add: example_df_def range_index_def upt_rec)
  have k: "length (filter (\<lambda>row. isl (request_of_row simple_float no_print
                                         (df_columns example_df) row))
                     (map snd (df_rows example_df))) = 1"
    by (simp add: example_df_def request_of_row_def then_do_def row_item_def row_get_def
        cell_float_def cell_str_def validate_request_def simple_float_def)
  have i: "map (\<lambda>k. IntLabel (int k + 1)) [0..<3] = [IntLabel 1, IntLabel 2, IntLabel 3]"
    by (simp add: upt_rec)
  have j: "(3::nat) - 1 = 2"
    by simp
  from batch_counts_on_range_index [where loads = reject_all and build = build_none
      and float_of_str = simple_float and str_of_num = no_print
      and replies = "\<lambda>k. unavailable" and filename = "''products.csv''"
      and df = example_df, OF a b c, unfolded n k i j]
  obtain resp where "upload_csv reject_all build_none simple_float no_print
        (\<lambda>k. unavailable) ''products.csv'' example_df = Inr resp
      \<and> total_products resp = 3
      \<and> failed_predictions resp = 1
      \<and> successful_predictions resp = 2
      \<and> length (results resp) = 3
      \<and> map row_number (results resp) = [IntLabel 1, IntLabel 2, IntLabel 3]"
    by (elim exE conjE, intro that conjI) assumption+
  then show ?thesis
    by (rule exI [where x = resp])
qed

section \<open>Statistics of the local file store\<close>

text \<open>
The path of the example user, and what is loaded from the example disks.
\<close>

lemma alice_file: "get_user_file_path (sub alice) = ''local_data/user_auth0alice.json''"
  by (simp add: alice_def get_user_file_path_def storage_dir_def isalnum_def is_lower_def
      is_upper_def is_digit_def less_eq_char_def)

text \<open>
Loading reads the records the example disk holds.
\<close>

lemma load_disk_with: "load_user_data working (disk_with prices) (sub alice) = map priced prices"
  unfolding load_user_data_def alice_file
  by (simp add: working_def disk_with_def)

text \<open>
The example record carries the price it was given.
\<close>

lemma priced_price: "sg_suggested_price (priced price) = price"
  by (simp add: priced_def)

text \<open>
So the loop over the example records sees the prices alone.
\<close>

lemma prices_of_priced:
  "List.map_filter (\<lambda>suggestion. coerce_price float_of_str (sg_suggested_price suggestion))
     (map priced ps)
   = List.map_filter (coerce_price float_of_str) ps"
  by (induction ps) (simp_all add: priced_price split: option.splits)

text \<open>
The text of a price written with a dollar sign and a comma, once cleaned.
\<close>

lemma clean_dollar_string:
  "strip (remove_char CHR '','' (remove_char CHR ''$'' ''$1,234.50'')) = ''1234.50''"
  by code_simp

text \<open>
A price written with a dollar sign and a comma becomes its number.
\<close>

lemma coerce_dollar_string:
  "coerce_price price_float (JStr ''$1,234.50'') = Some (JFloat (2469 / 2))"
  by (simp add: coerce_price_def clean_dollar_string price_float_def)

text \<open>
A dictionary passes both type tests and is appended as it is.
\<close>

lemma coerce_object: "coerce_price price_float object_price = Some object_price"
  by (simp add: coerce_price_def object_price_def)

text \<open>
\<open>sum\<close> adds the float and stops at the dictionary.
\<close>

lemma sum_stops_at_object:
  "py_sum ''int'' 0 [JFloat (2469 / 2), object_price]
   = Inl (Exn TypeError (''unsupported operand type(s) for +: '' @ quoted ''float''
                         @ '' and '' @ quoted ''dict''))"
  by (simp add: object_price_def type_name_def)

text \<open>
  C6 fails on the code where a stored price is a dictionary. With two records stored, one
  priced \<open>$1,234.50\<close> and one priced by an object with an amount and a currency, the
  claim skips the object and reports two suggestions with mean, min and max 1234.5; the
  code appends the object to \<open>prices\<close>, \<open>sum\<close> raises \<open>TypeError\<close>, and the handler
  re-raises it.
\<close>

theorem C6_stats_raise_on_object_price:
  "coerced price_float (JStr ''$1,234.50'') = Some (2469 / 2)
   \<and> coerced price_float object_price = None
   \<and> local_storage_get_suggestions_stats price_float working
        (disk_with [JStr ''$1,234.50'', object_price]) alice
      = Inl (Exn TypeError (''unsupported operand type(s) for +: '' @ quoted ''float''
                            @ '' and '' @ quoted ''dict''))"
proof -
  have c: "coerced price_float (JStr ''$1,234.50'') = Some (2469 / 2)"
    by (simp add: coerced_def clean_dollar_string price_float_def)
  have o: "coerced price_float object_price = None"
    by (simp add: coerced_def object_price_def)
  have p: "List.map_filter (coerce_price price_float) [JStr ''$1,234.50'', object_price]
             = [JFloat (2469 / 2), object_price]"
    by (simp add: coerce_dollar_string coerce_object)
  have "local_storage_get_suggestions_stats price_float working
        (disk_with [JStr ''$1,234.50'', object_price]) alice
      = Inl (Exn TypeError (''unsupported operand type(s) for +: '' @ quoted ''float''
                            @ '' and '' @ quoted ''dict''))"
    unfolding local_storage_get_suggestions_stats_def load_disk_with Let_def
      prices_of_priced p sum_stops_at_object
    by simp
  with c o show ?thesis
    by (intro conjI)
qed

text \<open>
\<open>sum\<close> stops at a dictionary that comes first.
\<close>

lemma sum_stops_at_once:
  "py_sum ''int'' 0 [object_price]
   = Inl (Exn TypeError (''unsupported operand type(s) for +: '' @ quoted ''int''
                         @ '' and '' @ quoted ''dict''))"
  by (simp add: object_price_def type_name_def)

text \<open>
  C10 fails on the code at the same place. With two records stored, one without a price
  and one priced by an object, no price can be coerced to a number, and the claim reports
  two suggestions with zero mean, min and max; the code raises \<open>TypeError\<close>.
\<close>

theorem C10_stats_raise_without_coercible_price:
  "map priced [JNull, object_price] \<noteq> []
   \<and> coerced price_float JNull = None
   \<and> coerced price_float object_price = None
   \<and> local_storage_get_suggestions_stats price_float working
        (disk_with [JNull, object_price]) alice
      = Inl (Exn TypeError (''unsupported operand type(s) for +: '' @ quoted ''int''
                            @ '' and '' @ quoted ''dict''))"
proof -
  have e: "map priced [JNull, object_price] \<noteq> []"
    by simp
  have c: "coerced price_float JNull = None"
    by (simp add: coerced_def)
  have o: "coerced price_float object_price = None"
    by (simp add: coerced_def object_price_def)
  have n: "coerce_price price_float JNull = None"
    by (simp add: coerce_price_def)
  have p: "List.map_filter (coerce_price price_float) [JNull, object_price] = [object_price]"
    by (simp add: n coerce_object)
  have "local_storage_get_suggestions_stats price_float working
        (disk_with [JNull, object_price]) alice
      = Inl (Exn TypeError (''unsupported operand type(s) for +: '' @ quoted ''int''
                            @ '' and '' @ quoted ''dict''))"
    unfolding local_storage_get_suggestions_stats_def load_disk_with Let_def
      prices_of_priced p sum_stops_at_once
    by simp
  with e c o show ?thesis
    by (intro conjI)
qed

text \<open>
  What does hold. On a plain price the loop appends exactly the number the price stands
  for, or nothing.
\<close>

lemma coerce_plain:
  assumes "plain price"
  shows "coerce_price float_of_str price = map_option JFloat (coerced float_of_str price)"
  using assms
  by (cases price) (simp_all add: coerce_price_def coerced_def plain_def split: option.splits)

text \<open>
When every stored price is plain, \<open>prices\<close> is the list of those numbers.
\<close>

lemma prices_of_plain:
  assumes "\<forall>s \<in> set suggestions. plain (sg_suggested_price s)"
  shows "List.map_filter (\<lambda>s. coerce_price float_of_str (sg_suggested_price s)) suggestions
     = map JFloat (List.map_filter (\<lambda>s. coerced float_of_str (sg_suggested_price s)) suggestions)"
  using assms
  by (induction suggestions) (simp_all add: coerce_plain split: option.splits)

text \<open>
\<open>sum\<close> over floats returns their sum.
\<close>

lemma py_sum_floats: "py_sum t acc (map JFloat xs) = Inr (acc + sum_list xs)"
  by (induction xs arbitrary: t acc) (simp_all add: add.assoc)

text \<open>
Every element of a list of floats is a number.
\<close>

lemma numbers_floats: "numbers (map JFloat xs) = xs"
  by (induction xs) simp_all

text \<open>
\<open>min\<close> of a non-empty list is its least element.
\<close>

lemma py_min_is_Min:
  assumes "xs \<noteq> []"
  shows "py_min xs = Inr (Min (set xs))"
proof -
  from assms obtain y ys where xs: "xs = y # ys"
    by (cases xs) auto
  have "(\<lambda>item best. if item < best then item else best) = (min :: rat \<Rightarrow> rat \<Rightarrow> rat)"
    by (auto simp: fun_eq_iff min_def)
  with Min.set_eq_fold [of y ys] show ?thesis
    unfolding xs by simp
qed

text \<open>
\<open>max\<close> of a non-empty list is its greatest element.
\<close>

lemma py_max_is_Max:
  assumes "xs \<noteq> []"
  shows "py_max xs = Inr (Max (set xs))"
proof -
  from assms obtain y ys where xs: "xs = y # ys"
    by (cases xs) auto
  have "(\<lambda>item best. if best < item then item else best) = (max :: rat \<Rightarrow> rat \<Rightarrow> rat)"
    by (auto simp: fun_eq_iff max_def)
  with Max.set_eq_fold [of y ys] show ?thesis
    unfolding xs by simp
qed

text \<open>
No stored suggestion: every statistic is zero.
\<close>

lemma stats_without_suggestions:
  assumes "load_user_data env files (sub user) = []"
  shows "local_storage_get_suggestions_stats float_of_str env files user
     = Inr \<lparr>total_suggestions = 0, average_price = 0, min_price = 0, max_price = 0\<rparr>"
  using assms by (simp add: local_storage_get_suggestions_stats_def)

text \<open>
  When no stored price is a list or a dictionary, the statistics are the ones C6 and C10
  describe: the number of suggestions, and the mean, least and greatest of the prices that
  can be coerced, or zeros when there is none.
\<close>

lemma stats_on_plain_prices:
  assumes "load_user_data env files (sub user) = suggestions"
    and "suggestions \<noteq> []"
    and "\<forall>s \<in> set suggestions. plain (sg_suggested_price s)"
    and "List.map_filter (\<lambda>s. coerced float_of_str (sg_suggested_price s)) suggestions = xs"
  shows "local_storage_get_suggestions_stats float_of_str env files user
     = Inr (if xs = []
            then \<lparr>total_suggestions = length suggestions, average_price = 0, min_price = 0,
                  max_price = 0\<rparr>
            else \<lparr>total_suggestions = length suggestions,
                  average_price = sum_list xs / of_nat (length xs),
                  min_price = Min (set xs), max_price = Max (set xs)\<rparr>)"
proof -
  have p: "List.map_filter (\<lambda>s. coerce_price float_of_str (sg_suggested_price s)) suggestions
             = map JFloat xs"
    using prices_of_plain [OF assms(3)] assms(4) by simp
  show ?thesis
  proof (cases "xs = []")
    case True
    with assms(1,2) show ?thesis
      by (simp add: local_storage_get_suggestions_stats_def Let_def p)
  next
    case False
    with assms(1,2) show ?thesis
      by (simp add: local_storage_get_suggestions_stats_def Let_def p py_sum_floats
          numbers_floats py_min_is_Min py_max_is_Max)
  qed
qed

end
